theory Spec2Isabelle
  imports Complex_Main "HOL-Library.Product_Lexorder" "HOL-Library.Multiset"
begin

section \<open>Data model\<close>

text \<open>
  The persisted tables of the exchange, as the controllers and services read and write
  them through the transaction client. Identifiers are opaque generated strings in the
  source; only their equality and their uniqueness are used, so they are natural numbers
  here and a created row takes an identifier no row of its table has. Monetary amounts and
  prices are \<open>Prisma.Decimal\<close> values, computed exactly; they are rationals here. The
  rounding of a stored column to its scale is done by the database and is not part of this
  model. Free-text notes and the creation stamps that no operation reads are left out.
\<close>

type_synonym ident = nat
type_synonym decimal = rat

datatype side = BACK | LAY

datatype order_status = OPEN | PARTIAL | MATCHED | CANCELLED

datatype market_status = MARKET_OPEN | SUSPENDED | CLOSED | SETTLED

datatype match_status = UPCOMING | LIVE | COMPLETED | MATCH_CANCELLED

datatype ledger_type =
    CREDIT | DEBIT | TRANSFER_IN | TRANSFER_OUT | ORDER_PLACE | ORDER_CANCEL | ORDER_SETTLE
  | EXPOSURE_LOCK | EXPOSURE_RELEASE | BET_PLACE | BET_SETTLE | BET_REFUND

datatype message =
    Stake_must_be_positive
  | Price_must_be_above_one
  | Market_not_found
  | Market_is market_status
  | Runner_not_found_in_market
  | Wallet_not_found
  | Insufficient_balance decimal decimal
  | Order_not_found
  | Cannot_cancel order_status
  | Market_already_settled
  | Status_must_be_open_suspended_closed

text \<open>
  \<open>ApiError\<close> carries the HTTP status and the message the handler throws;
  \<open>RecordNotFound\<close> is what the client throws when \<open>update\<close> or
  \<open>findUniqueOrThrow\<close> finds no row.
\<close>

datatype error = ApiError nat message | RecordNotFound

record wallet =
  balance :: decimal
  exposure :: decimal

record ledger_entry =
  l_userId :: ident
  l_amount :: decimal
  l_type :: ledger_type
  l_balance :: decimal

record market =
  m_id :: ident
  m_matchId :: ident
  m_status :: market_status

record runner =
  r_id :: ident
  r_marketId :: ident
  r_name :: string
  r_isWinner :: "bool option"

record order =
  o_id :: ident
  o_userId :: ident
  o_marketId :: ident
  o_selectionId :: ident
  o_side :: side
  o_price :: decimal
  o_stake :: decimal
  o_matchedStake :: decimal
  o_remainingStake :: decimal
  o_status :: order_status
  o_lockedExposure :: decimal
  o_createdAt :: nat

record trade =
  t_id :: ident
  t_backOrderId :: ident
  t_layOrderId :: ident
  t_selectionId :: ident
  t_price :: decimal
  t_stake :: decimal
  t_settled :: bool

record market_exposure =
  e_userId :: ident
  e_marketId :: ident
  e_exposureAmount :: decimal

text \<open>
  The database. A wallet is keyed by its unique \<open>userId\<close>; the other tables are row
  lists in insertion order.
\<close>

record db =
  wallets :: "ident \<rightharpoonup> wallet"
  ledger :: "ledger_entry list"
  matches :: "ident \<rightharpoonup> match_status"
  markets :: "market list"
  runners :: "runner list"
  orders :: "order list"
  trades :: "trade list"
  marketExposures :: "market_exposure list"

section \<open>Table access\<close>

definition fresh_id :: "ident list \<Rightarrow> ident" where
  "fresh_id ids = Suc (fold max ids 0)"

text \<open>
  \<open>$transaction\<close>: the callback's writes are committed when it returns and rolled
  back when it throws.
\<close>

definition transaction :: "(db \<Rightarrow> error + ('a \<times> db)) \<Rightarrow> db \<Rightarrow> (error + 'a) \<times> db" where
  "transaction f s = (case f s of Inl e \<Rightarrow> (Inl e, s) | Inr (r, s') \<Rightarrow> (Inr r, s'))"

definition find_order :: "ident \<Rightarrow> db \<Rightarrow> order option" where
  "find_order oid s = find (\<lambda>x. o_id x = oid) (orders s)"

definition update_order :: "ident \<Rightarrow> (order \<Rightarrow> order) \<Rightarrow> db \<Rightarrow> error + db" where
  "update_order oid f s =
     (case find_order oid s of
        None \<Rightarrow> Inl RecordNotFound
      | Some _ \<Rightarrow> Inr (s\<lparr>orders := map (\<lambda>x. if o_id x = oid then f x else x) (orders s)\<rparr>))"

definition update_wallet :: "ident \<Rightarrow> (wallet \<Rightarrow> wallet) \<Rightarrow> db \<Rightarrow> error + (wallet \<times> db)" where
  "update_wallet userId f s =
     (case wallets s userId of
        None \<Rightarrow> Inl RecordNotFound
      | Some w \<Rightarrow> Inr (f w, s\<lparr>wallets := (wallets s)(userId \<mapsto> f w)\<rparr>))"

definition create_ledger :: "ident \<Rightarrow> decimal \<Rightarrow> ledger_type \<Rightarrow> decimal \<Rightarrow> db \<Rightarrow> db" where
  "create_ledger userId amount type bal s =
     s\<lparr>ledger := ledger s @
        [\<lparr>l_userId = userId, l_amount = amount, l_type = type, l_balance = bal\<rparr>]\<rparr>"

definition create_trade ::
  "ident \<Rightarrow> ident \<Rightarrow> ident \<Rightarrow> decimal \<Rightarrow> decimal \<Rightarrow> db \<Rightarrow> trade \<times> db" where
  "create_trade backOrderId layOrderId selectionId price stake s =
     (let t = \<lparr>t_id = fresh_id (map t_id (trades s)), t_backOrderId = backOrderId,
                t_layOrderId = layOrderId, t_selectionId = selectionId, t_price = price,
                t_stake = stake, t_settled = False\<rparr>
      in (t, s\<lparr>trades := trades s @ [t]\<rparr>))"

section \<open>Matching engine\<close>

text \<open>
  \<open>adjustExposure\<close>: an upsert on the (user, market) exposure row. A missing row is
  created with the delta, or with 0 when the delta is negative; an existing row is
  incremented by the delta.
\<close>

definition adjustExposure :: "ident \<Rightarrow> ident \<Rightarrow> decimal \<Rightarrow> db \<Rightarrow> db" where
  "adjustExposure userId marketId delta s =
     (case find (\<lambda>x. e_userId x = userId \<and> e_marketId x = marketId) (marketExposures s) of
        None \<Rightarrow>
          s\<lparr>marketExposures := marketExposures s @
              [\<lparr>e_userId = userId, e_marketId = marketId,
                e_exposureAmount = (if delta < 0 then 0 else delta)\<rparr>]\<rparr>
      | Some _ \<Rightarrow>
          s\<lparr>marketExposures :=
              map (\<lambda>x. if e_userId x = userId \<and> e_marketId x = marketId
                        then x\<lparr>e_exposureAmount := e_exposureAmount x + delta\<rparr> else x)
                  (marketExposures s)\<rparr>)"

text \<open>The columns the candidate query selects.\<close>

record candidate =
  c_id :: ident
  c_price :: decimal
  c_remainingStake :: decimal
  c_userId :: ident

record trade_info =
  ti_tradeId :: ident
  ti_price :: decimal
  ti_stake :: decimal

record match_result =
  mr_matchedStake :: decimal
  mr_remainingStake :: decimal
  mr_trades :: "trade_info list"

definition to_candidate :: "order \<Rightarrow> candidate" where
  "to_candidate x = \<lparr>c_id = o_id x, c_price = o_price x,
                     c_remainingStake = o_remainingStake x, c_userId = o_userId x\<rparr>"

text \<open>
  The candidate queries. \<open>ORDER BY price ASC, "createdAt" ASC\<close> for an incoming BACK,
  \<open>ORDER BY price DESC, "createdAt" ASC\<close> for an incoming LAY; rows equal in both keys
  keep their table order. Row locking (\<open>FOR UPDATE SKIP LOCKED\<close>) concerns concurrent
  transactions and has no effect inside one.
\<close>

definition lay_candidate_rows :: "ident \<Rightarrow> decimal \<Rightarrow> db \<Rightarrow> order list" where
  "lay_candidate_rows selectionId backPrice s =
     sort_key (\<lambda>x. (o_price x, o_createdAt x))
       (filter (\<lambda>x. o_selectionId x = selectionId \<and> o_side x = LAY
                    \<and> (o_status x = OPEN \<or> o_status x = PARTIAL) \<and> o_price x \<le> backPrice)
               (orders s))"

definition back_candidate_rows :: "ident \<Rightarrow> decimal \<Rightarrow> db \<Rightarrow> order list" where
  "back_candidate_rows selectionId layPrice s =
     sort_key (\<lambda>x. (- o_price x, o_createdAt x))
       (filter (\<lambda>x. o_selectionId x = selectionId \<and> o_side x = BACK
                    \<and> (o_status x = OPEN \<or> o_status x = PARTIAL) \<and> layPrice \<le> o_price x)
               (orders s))"

text \<open>
  The body of the loop over the candidates, which \<open>matchBackOrder\<close> and
  \<open>matchLayOrder\<close> share up to two places: which of the two orders is the trade's back
  order, and the exposure released for the resting side (the lay liability
  \<open>(price - 1) * tradeStake\<close> when the incoming order is a BACK, the stake when it is a
  LAY). The first argument is the side of the incoming order.
\<close>

definition match_step ::
  "side \<Rightarrow> ident \<Rightarrow> ident \<Rightarrow> candidate \<Rightarrow> decimal \<Rightarrow> db \<Rightarrow> error + (trade_info \<times> db)" where
  "match_step incoming incomingOrderId selectionId c tradeStake s =
     (let candidatePrice = c_price c;
          candidateRemaining = c_remainingStake c;
          (t, s1) = (case incoming of
                       BACK \<Rightarrow> create_trade incomingOrderId (c_id c) selectionId candidatePrice tradeStake s
                     | LAY \<Rightarrow> create_trade (c_id c) incomingOrderId selectionId candidatePrice tradeStake s);
          ti = \<lparr>ti_tradeId = t_id t, ti_price = candidatePrice, ti_stake = tradeStake\<rparr>;
          newCandidateRemaining = candidateRemaining - tradeStake
      in case find_order (c_id c) s1 of
           None \<Rightarrow> Inl RecordNotFound
         | Some row \<Rightarrow>
            (let newCandidateMatched = o_matchedStake row + tradeStake;
                 newCandidateStatus = (if newCandidateRemaining \<le> 0 then MATCHED else PARTIAL)
             in case update_order (c_id c)
                       (\<lambda>x. x\<lparr>o_matchedStake := newCandidateMatched,
                               o_remainingStake := newCandidateRemaining,
                               o_status := newCandidateStatus\<rparr>) s1 of
                  Inl e \<Rightarrow> Inl e
                | Inr s2 \<Rightarrow>
                   (case find_order (c_id c) s2 of
                      None \<Rightarrow> Inl RecordNotFound
                    | Some row2 \<Rightarrow>
                        Inr (ti, adjustExposure (c_userId c) (o_marketId row2)
                                   (case incoming of
                                      BACK \<Rightarrow> - ((candidatePrice - 1) * tradeStake)
                                    | LAY \<Rightarrow> - tradeStake) s2))))"

fun match_loop ::
  "side \<Rightarrow> ident \<Rightarrow> ident \<Rightarrow> candidate list \<Rightarrow> decimal \<Rightarrow> trade_info list \<Rightarrow> db
    \<Rightarrow> error + ((decimal \<times> trade_info list) \<times> db)" where
  "match_loop incoming incomingOrderId selectionId [] remaining trs s = Inr ((remaining, trs), s)"
| "match_loop incoming incomingOrderId selectionId (c # cs) remaining trs s =
     (if remaining \<le> 0 then Inr ((remaining, trs), s)
      else (let tradeStake = (if remaining < c_remainingStake c then remaining
                              else c_remainingStake c)
            in case match_step incoming incomingOrderId selectionId c tradeStake s of
                 Inl e \<Rightarrow> Inl e
               | Inr (ti, s') \<Rightarrow>
                   match_loop incoming incomingOrderId selectionId cs (remaining - tradeStake)
                     (trs @ [ti]) s'))"

definition matchBackOrder ::
  "ident \<Rightarrow> ident \<Rightarrow> decimal \<Rightarrow> decimal \<Rightarrow> db \<Rightarrow> error + (match_result \<times> db)" where
  "matchBackOrder incomingOrderId selectionId backPrice stakeToMatch s =
     (case match_loop BACK incomingOrderId selectionId
             (map to_candidate (lay_candidate_rows selectionId backPrice s)) stakeToMatch [] s of
        Inl e \<Rightarrow> Inl e
      | Inr ((remaining, trs), s') \<Rightarrow>
          Inr (\<lparr>mr_matchedStake = stakeToMatch - remaining, mr_remainingStake = remaining,
                mr_trades = trs\<rparr>, s'))"

definition matchLayOrder ::
  "ident \<Rightarrow> ident \<Rightarrow> decimal \<Rightarrow> decimal \<Rightarrow> db \<Rightarrow> error + (match_result \<times> db)" where
  "matchLayOrder incomingOrderId selectionId layPrice stakeToMatch s =
     (case match_loop LAY incomingOrderId selectionId
             (map to_candidate (back_candidate_rows selectionId layPrice s)) stakeToMatch [] s of
        Inl e \<Rightarrow> Inl e
      | Inr ((remaining, trs), s') \<Rightarrow>
          Inr (\<lparr>mr_matchedStake = stakeToMatch - remaining, mr_remainingStake = remaining,
                mr_trades = trs\<rparr>, s'))"

section \<open>Order lifecycle controller\<close>

record place_result =
  pr_order :: order
  pr_trades :: "trade_info list"
  pr_matchedStake :: decimal
  pr_remainingStake :: decimal
  pr_status :: order_status

definition create_order ::
  "nat \<Rightarrow> ident \<Rightarrow> ident \<Rightarrow> ident \<Rightarrow> side \<Rightarrow> decimal \<Rightarrow> decimal \<Rightarrow> decimal \<Rightarrow> db \<Rightarrow> order \<times> db" where
  "create_order now userId marketId selectionId sd price stake liability s =
     (let row = \<lparr>o_id = fresh_id (map o_id (orders s)), o_userId = userId,
                  o_marketId = marketId, o_selectionId = selectionId, o_side = sd,
                  o_price = price, o_stake = stake, o_matchedStake = 0,
                  o_remainingStake = stake, o_status = OPEN, o_lockedExposure = liability,
                  o_createdAt = now\<rparr>
      in (row, s\<lparr>orders := orders s @ [row]\<rparr>))"

text \<open>
  The transaction of \<open>placeOrder\<close>. \<open>now\<close> is the clock reading that stamps the new
  order's \<open>createdAt\<close>.
\<close>

definition placeOrder_tx ::
  "nat \<Rightarrow> ident \<Rightarrow> ident \<Rightarrow> ident \<Rightarrow> side \<Rightarrow> decimal \<Rightarrow> decimal \<Rightarrow> db
    \<Rightarrow> error + (place_result \<times> db)" where
  "placeOrder_tx now userId marketId selectionId sd orderPrice orderStake s =
     (case find (\<lambda>m. m_id m = marketId) (markets s) of
        None \<Rightarrow> Inl (ApiError 404 Market_not_found)
      | Some market \<Rightarrow>
         if m_status market \<noteq> MARKET_OPEN then Inl (ApiError 400 (Market_is (m_status market)))
         else
          (case find (\<lambda>r. r_id r = selectionId \<and> r_marketId r = marketId) (runners s) of
             None \<Rightarrow> Inl (ApiError 404 Runner_not_found_in_market)
           | Some _ \<Rightarrow>
              (let liability = (case sd of BACK \<Rightarrow> orderStake
                                         | LAY \<Rightarrow> (orderPrice - 1) * orderStake)
               in case wallets s userId of
                    None \<Rightarrow> Inl (ApiError 404 Wallet_not_found)
                  | Some wallet \<Rightarrow>
                     (let availableBalance = balance wallet - exposure wallet
                      in if availableBalance < liability
                         then Inl (ApiError 400 (Insufficient_balance liability availableBalance))
                         else
                          (let newWalletExposure = exposure wallet + liability
                           in case update_wallet userId (\<lambda>w. w\<lparr>exposure := newWalletExposure\<rparr>) s of
                                Inl e \<Rightarrow> Inl e
                              | Inr (_, s1) \<Rightarrow>
                                 (let (order, s2) = create_order now userId marketId selectionId sd
                                                      orderPrice orderStake liability s1;
                                      s3 = create_ledger userId (- liability) EXPOSURE_LOCK
                                             (balance wallet) s2
                                  in case (case sd of
                                             BACK \<Rightarrow> matchBackOrder (o_id order) selectionId
                                                       orderPrice orderStake s3
                                           | LAY \<Rightarrow> matchLayOrder (o_id order) selectionId
                                                      orderPrice orderStake s3) of
                                       Inl e \<Rightarrow> Inl e
                                     | Inr (matchResult, s4) \<Rightarrow>
                                        (let finalStatus =
                                               (if mr_remainingStake matchResult \<le> 0 then MATCHED
                                                else if 0 < mr_matchedStake matchResult then PARTIAL
                                                else OPEN)
                                         in case update_order (o_id order)
                                                   (\<lambda>x. x\<lparr>o_matchedStake := mr_matchedStake matchResult,
                                                           o_remainingStake := mr_remainingStake matchResult,
                                                           o_status := finalStatus\<rparr>) s4 of
                                              Inl e \<Rightarrow> Inl e
                                            | Inr s5 \<Rightarrow>
                                               (case find_order (o_id order) s5 of
                                                  None \<Rightarrow> Inl RecordNotFound
                                                | Some updatedOrder \<Rightarrow>
                                                    Inr (\<lparr>pr_order = updatedOrder,
                                                          pr_trades = mr_trades matchResult,
                                                          pr_matchedStake = mr_matchedStake matchResult,
                                                          pr_remainingStake = mr_remainingStake matchResult,
                                                          pr_status = finalStatus\<rparr>, s5)))))))))"

text \<open>
  \<open>placeOrder\<close>: the validation of the request, then the transaction. The handler is
  reached with an authenticated user, all five fields present and a side that is BACK or
  LAY; the 401 and the two 400 answers for a request that is not are part of reading the
  request and are left out.
\<close>

definition placeOrder ::
  "nat \<Rightarrow> ident \<Rightarrow> ident \<Rightarrow> ident \<Rightarrow> side \<Rightarrow> decimal \<Rightarrow> decimal \<Rightarrow> db
    \<Rightarrow> (error + place_result) \<times> db" where
  "placeOrder now userId marketId selectionId sd price stake s =
     (if stake \<le> 0 then (Inl (ApiError 400 Stake_must_be_positive), s)
      else if price \<le> 1 then (Inl (ApiError 400 Price_must_be_above_one), s)
      else transaction (placeOrder_tx now userId marketId selectionId sd price stake) s)"

record cancel_result =
  cr_orderId :: ident
  cr_releasedExposure :: decimal
  cr_newExposure :: decimal
  cr_availableBalance :: decimal

definition cancelOrder_tx :: "ident \<Rightarrow> ident \<Rightarrow> db \<Rightarrow> error + (cancel_result \<times> db)" where
  "cancelOrder_tx userId orderId s =
     (case find (\<lambda>x. o_id x = orderId \<and> o_userId x = userId) (orders s) of
        None \<Rightarrow> Inl (ApiError 404 Order_not_found)
      | Some order \<Rightarrow>
         if \<not> (o_status order = OPEN \<or> o_status order = PARTIAL)
         then Inl (ApiError 400 (Cannot_cancel (o_status order)))
         else
          (let exposureToRelease =
                 (case o_side order of
                    BACK \<Rightarrow> o_remainingStake order
                  | LAY \<Rightarrow> (o_price order - 1) * o_remainingStake order)
           in case update_order (o_id order) (\<lambda>x. x\<lparr>o_status := CANCELLED\<rparr>) s of
                Inl e \<Rightarrow> Inl e
              | Inr s1 \<Rightarrow>
                 (case update_wallet userId
                         (\<lambda>w. w\<lparr>exposure := exposure w - exposureToRelease\<rparr>) s1 of
                    Inl e \<Rightarrow> Inl e
                  | Inr (wallet, s2) \<Rightarrow>
                      Inr (\<lparr>cr_orderId = o_id order,
                            cr_releasedExposure = exposureToRelease,
                            cr_newExposure = exposure wallet,
                            cr_availableBalance = balance wallet - exposure wallet\<rparr>,
                           create_ledger userId exposureToRelease EXPOSURE_RELEASE
                             (balance wallet) s2))))"

definition cancelOrder :: "ident \<Rightarrow> ident \<Rightarrow> db \<Rightarrow> (error + cancel_result) \<times> db" where
  "cancelOrder userId orderId s = transaction (cancelOrder_tx userId orderId) s"

section \<open>Settlement\<close>

text \<open>
  A trade as the settlement queries load it, with its two orders and its selection
  included. Foreign keys make each of the three lookups succeed.
\<close>

record trade_row =
  tr_trade :: trade
  tr_backOrder :: order
  tr_layOrder :: order
  tr_selection :: runner

definition include_trade :: "db \<Rightarrow> trade \<Rightarrow> trade_row option" where
  "include_trade s t =
     (case find_order (t_backOrderId t) s of
        None \<Rightarrow> None
      | Some b \<Rightarrow>
         (case find_order (t_layOrderId t) s of
            None \<Rightarrow> None
          | Some l \<Rightarrow>
             (case find (\<lambda>r. r_id r = t_selectionId t) (runners s) of
                None \<Rightarrow> None
              | Some r \<Rightarrow> Some \<lparr>tr_trade = t, tr_backOrder = b, tr_layOrder = l,
                                 tr_selection = r\<rparr>)))"

definition unsettled_trades :: "ident list \<Rightarrow> db \<Rightarrow> trade_row list" where
  "unsettled_trades selectionIds s =
     List.map_filter (include_trade s)
       (filter (\<lambda>t. t_selectionId t \<in> set selectionIds \<and> \<not> t_settled t) (trades s))"

definition open_orders :: "ident \<Rightarrow> db \<Rightarrow> order list" where
  "open_orders marketId s =
     filter (\<lambda>x. o_marketId x = marketId \<and> (o_status x = OPEN \<or> o_status x = PARTIAL)) (orders s)"

definition mark_settled :: "ident \<Rightarrow> db \<Rightarrow> error + db" where
  "mark_settled tid s =
     (case find (\<lambda>t. t_id t = tid) (trades s) of
        None \<Rightarrow> Inl RecordNotFound
      | Some _ \<Rightarrow>
          Inr (s\<lparr>trades := map (\<lambda>t. if t_id t = tid then t\<lparr>t_settled := True\<rparr> else t) (trades s)\<rparr>))"

definition update_runner :: "ident \<Rightarrow> bool option \<Rightarrow> db \<Rightarrow> error + db" where
  "update_runner rid w s =
     (case find (\<lambda>r. r_id r = rid) (runners s) of
        None \<Rightarrow> Inl RecordNotFound
      | Some _ \<Rightarrow>
          Inr (s\<lparr>runners := map (\<lambda>r. if r_id r = rid then r\<lparr>r_isWinner := w\<rparr> else r) (runners s)\<rparr>))"

definition update_market :: "ident \<Rightarrow> market_status \<Rightarrow> db \<Rightarrow> error + db" where
  "update_market mid st s =
     (case find (\<lambda>m. m_id m = mid) (markets s) of
        None \<Rightarrow> Inl RecordNotFound
      | Some _ \<Rightarrow>
          Inr (s\<lparr>markets := map (\<lambda>m. if m_id m = mid then m\<lparr>m_status := st\<rparr> else m) (markets s)\<rparr>))"

text \<open>\<open>marketExposure.updateMany\<close> with a decrement: rows that match, none when none does.\<close>

definition decrement_market_exposure :: "ident \<Rightarrow> ident \<Rightarrow> decimal \<Rightarrow> db \<Rightarrow> db" where
  "decrement_market_exposure userId marketId amount s =
     s\<lparr>marketExposures :=
         map (\<lambda>x. if e_userId x = userId \<and> e_marketId x = marketId
                   then x\<lparr>e_exposureAmount := e_exposureAmount x - amount\<rparr> else x)
             (marketExposures s)\<rparr>"

fun for_each :: "('a \<Rightarrow> db \<Rightarrow> error + db) \<Rightarrow> 'a list \<Rightarrow> db \<Rightarrow> error + db" where
  "for_each f [] s = Inr s"
| "for_each f (x # xs) s = (case f x s of Inl e \<Rightarrow> Inl e | Inr s' \<Rightarrow> for_each f xs s')"

subsection \<open>The settlement service\<close>

datatype outcome = BACK_WINS | LAY_WINS

definition creditWallet :: "ident \<Rightarrow> decimal \<Rightarrow> db \<Rightarrow> error + db" where
  "creditWallet userId amount s =
     (case update_wallet userId (\<lambda>w. w\<lparr>balance := balance w + amount\<rparr>) s of
        Inl e \<Rightarrow> Inl e
      | Inr (wallet, s1) \<Rightarrow> Inr (create_ledger userId amount ORDER_SETTLE (balance wallet) s1))"

definition releaseExposure :: "ident \<Rightarrow> ident \<Rightarrow> decimal \<Rightarrow> db \<Rightarrow> error + db" where
  "releaseExposure userId marketId amount s =
     (case update_wallet userId (\<lambda>w. w\<lparr>exposure := exposure w - amount\<rparr>) s of
        Inl e \<Rightarrow> Inl e
      | Inr (_, s1) \<Rightarrow> Inr (decrement_market_exposure userId marketId amount s1))"

definition settleTrade :: "trade_row \<Rightarrow> outcome \<Rightarrow> db \<Rightarrow> error + db" where
  "settleTrade tr outc s =
     (let profit = (t_price (tr_trade tr) - 1) * t_stake (tr_trade tr);
          backUserId = o_userId (tr_backOrder tr);
          layUserId = o_userId (tr_layOrder tr);
          marketId = o_marketId (tr_backOrder tr)
      in case (case outc of
                 BACK_WINS \<Rightarrow>
                   (let backPayout = t_stake (tr_trade tr) + profit
                    in case creditWallet backUserId backPayout s of
                         Inl e \<Rightarrow> Inl e
                       | Inr s1 \<Rightarrow> releaseExposure layUserId marketId profit s1)
               | LAY_WINS \<Rightarrow>
                   (case creditWallet layUserId (t_stake (tr_trade tr)) s of
                      Inl e \<Rightarrow> Inl e
                    | Inr s1 \<Rightarrow> releaseExposure backUserId marketId (t_stake (tr_trade tr)) s1)) of
           Inl e \<Rightarrow> Inl e
         | Inr s2 \<Rightarrow> mark_settled (t_id (tr_trade tr)) s2)"

definition refundTrade :: "trade_row \<Rightarrow> db \<Rightarrow> error + db" where
  "refundTrade tr s =
     (case creditWallet (o_userId (tr_backOrder tr)) (t_stake (tr_trade tr)) s of
        Inl e \<Rightarrow> Inl e
      | Inr s1 \<Rightarrow>
         (let layLiability = (t_price (tr_trade tr) - 1) * t_stake (tr_trade tr)
          in case creditWallet (o_userId (tr_layOrder tr)) layLiability s1 of
               Inl e \<Rightarrow> Inl e
             | Inr s2 \<Rightarrow> mark_settled (t_id (tr_trade tr)) s2))"

definition cancel_open_order :: "ident \<Rightarrow> order \<Rightarrow> db \<Rightarrow> error + db" where
  "cancel_open_order marketId order s =
     (case update_order (o_id order) (\<lambda>x. x\<lparr>o_status := CANCELLED\<rparr>) s of
        Inl e \<Rightarrow> Inl e
      | Inr s1 \<Rightarrow>
         (let exposureToRelease =
                (case o_side order of
                   BACK \<Rightarrow> o_remainingStake order
                 | LAY \<Rightarrow> (o_price order - 1) * o_remainingStake order)
          in case update_wallet (o_userId order)
                    (\<lambda>w. w\<lparr>exposure := exposure w - exposureToRelease\<rparr>) s1 of
               Inl e \<Rightarrow> Inl e
             | Inr (_, s2) \<Rightarrow>
                (let s3 = decrement_market_exposure (o_userId order) marketId exposureToRelease s2
                 in case wallets s3 (o_userId order) of
                      None \<Rightarrow> Inl RecordNotFound
                    | Some wallet \<Rightarrow>
                        Inr (create_ledger (o_userId order) exposureToRelease EXPOSURE_RELEASE
                               (balance wallet) s3))))"

definition cancelOpenOrders :: "ident \<Rightarrow> db \<Rightarrow> error + db" where
  "cancelOpenOrders marketId s = for_each (cancel_open_order marketId) (open_orders marketId s) s"

definition settle_one :: "trade_row \<Rightarrow> db \<Rightarrow> error + db" where
  "settle_one tr s =
     (case r_isWinner (tr_selection tr) of
        None \<Rightarrow> refundTrade tr s
      | Some True \<Rightarrow> settleTrade tr BACK_WINS s
      | Some False \<Rightarrow> settleTrade tr LAY_WINS s)"

definition toLowerCase :: "string \<Rightarrow> string" where
  "toLowerCase = map (\<lambda>c. let n = (of_char c :: nat)
                          in if 65 \<le> n \<and> n \<le> 90 then char_of (n + 32) else c)"

text \<open>
  The per-market part of \<open>settleMatch\<close>, for a market loaded with its runners:
  the market becomes SETTLED, each runner is flagged by comparing its name with the
  winner's name (both lowered, here on the ASCII letters), the unsettled trades on its
  runners are settled, and the resting orders are cancelled.
\<close>

definition settle_market :: "string option \<Rightarrow> market \<times> runner list \<Rightarrow> db \<Rightarrow> error + db" where
  "settle_market winnerName mr s =
     (let market = fst mr; marketRunners = snd mr
      in case update_market (m_id market) SETTLED s of
           Inl e \<Rightarrow> Inl e
         | Inr s1 \<Rightarrow>
            (case for_each
                    (\<lambda>r. update_runner (r_id r)
                            (Some (case winnerName of
                                     None \<Rightarrow> False
                                   | Some w \<Rightarrow> toLowerCase (r_name r) = toLowerCase w)))
                    marketRunners s1 of
               Inl e \<Rightarrow> Inl e
             | Inr s2 \<Rightarrow>
                (case for_each settle_one (unsettled_trades (map r_id marketRunners) s2) s2 of
                   Inl e \<Rightarrow> Inl e
                 | Inr s3 \<Rightarrow> cancelOpenOrders (m_id market) s3)))"

text \<open>
  The transaction of \<open>settleMatch\<close>; \<open>winnerName\<close> is the name of the team with the
  higher score, or nothing on a draw.
\<close>

definition settleMatch_tx :: "ident \<Rightarrow> string option \<Rightarrow> db \<Rightarrow> error + (unit \<times> db)" where
  "settleMatch_tx matchId winnerName s =
     (case matches s matchId of
        None \<Rightarrow> Inl RecordNotFound
      | Some _ \<Rightarrow>
         (let s1 = s\<lparr>matches := (matches s)(matchId \<mapsto> COMPLETED)\<rparr>;
              ms = map (\<lambda>m. (m, filter (\<lambda>r. r_marketId r = m_id m) (runners s1)))
                     (filter (\<lambda>m. m_matchId m = matchId
                                   \<and> (m_status m = MARKET_OPEN \<or> m_status m = SUSPENDED))
                             (markets s1))
          in case for_each (settle_market winnerName) ms s1 of
               Inl e \<Rightarrow> Inl e
             | Inr s2 \<Rightarrow> Inr ((), s2)))"

definition settleMatch :: "ident \<Rightarrow> string option \<Rightarrow> db \<Rightarrow> (error + unit) \<times> db" where
  "settleMatch matchId winnerName s = transaction (settleMatch_tx matchId winnerName) s"

subsection \<open>Administrative force-close\<close>

record close_result =
  cancelledOrders :: nat
  settledTrades :: nat

definition force_cancel_order :: "ident \<Rightarrow> order \<Rightarrow> db \<Rightarrow> error + db" where
  "force_cancel_order marketId order s =
     (let exposureToRelease =
            (case o_side order of
               BACK \<Rightarrow> o_remainingStake order
             | LAY \<Rightarrow> (o_price order - 1) * o_remainingStake order)
      in case update_order (o_id order) (\<lambda>x. x\<lparr>o_status := CANCELLED\<rparr>) s of
           Inl e \<Rightarrow> Inl e
         | Inr s1 \<Rightarrow>
            (case update_wallet (o_userId order)
                    (\<lambda>w. w\<lparr>exposure := exposure w - exposureToRelease\<rparr>) s1 of
               Inl e \<Rightarrow> Inl e
             | Inr (wallet, s2) \<Rightarrow>
                 Inr (create_ledger (o_userId order) exposureToRelease EXPOSURE_RELEASE
                        (balance wallet)
                        (decrement_market_exposure (o_userId order) marketId exposureToRelease s2))))"

text \<open>One credit of the refund branch: the wallet's balance and its ledger entry.\<close>

definition force_refund :: "ident \<times> decimal \<Rightarrow> db \<Rightarrow> error + db" where
  "force_refund ua s =
     (case update_wallet (fst ua) (\<lambda>w. w\<lparr>balance := balance w + snd ua\<rparr>) s of
        Inl e \<Rightarrow> Inl e
      | Inr (wallet, s1) \<Rightarrow> Inr (create_ledger (fst ua) (snd ua) ORDER_SETTLE (balance wallet) s1))"

definition force_settle_trade :: "trade_row \<Rightarrow> db \<Rightarrow> error + db" where
  "force_settle_trade tr s =
     (case (case r_isWinner (tr_selection tr) of
              None \<Rightarrow>
                (let backStake = t_stake (tr_trade tr);
                     layLiability = (t_price (tr_trade tr) - 1) * t_stake (tr_trade tr)
                 in for_each force_refund
                      [(o_userId (tr_backOrder tr), backStake),
                       (o_userId (tr_layOrder tr), layLiability)] s)
            | Some True \<Rightarrow>
                (let profit = (t_price (tr_trade tr) - 1) * t_stake (tr_trade tr);
                     backPayout = t_stake (tr_trade tr) + profit
                 in case update_wallet (o_userId (tr_backOrder tr))
                           (\<lambda>w. w\<lparr>balance := balance w + backPayout\<rparr>) s of
                      Inl e \<Rightarrow> Inl e
                    | Inr (backWallet, s1) \<Rightarrow>
                       (let s2 = create_ledger (o_userId (tr_backOrder tr)) backPayout
                                   ORDER_SETTLE (balance backWallet) s1
                        in case update_wallet (o_userId (tr_layOrder tr))
                                  (\<lambda>w. w\<lparr>exposure := exposure w - profit\<rparr>) s2 of
                             Inl e \<Rightarrow> Inl e
                           | Inr (layWallet, s3) \<Rightarrow>
                               Inr (create_ledger (o_userId (tr_layOrder tr)) (- profit)
                                      ORDER_SETTLE (balance layWallet) s3)))
            | Some False \<Rightarrow>
                (case update_wallet (o_userId (tr_layOrder tr))
                        (\<lambda>w. w\<lparr>balance := balance w + t_stake (tr_trade tr)\<rparr>) s of
                   Inl e \<Rightarrow> Inl e
                 | Inr (layWallet, s1) \<Rightarrow>
                    (let s2 = create_ledger (o_userId (tr_layOrder tr)) (t_stake (tr_trade tr))
                                ORDER_SETTLE (balance layWallet) s1
                     in case update_wallet (o_userId (tr_backOrder tr))
                               (\<lambda>w. w\<lparr>exposure := exposure w - t_stake (tr_trade tr)\<rparr>) s2 of
                          Inl e \<Rightarrow> Inl e
                        | Inr (backWallet, s3) \<Rightarrow>
                            Inr (create_ledger (o_userId (tr_backOrder tr))
                                   (- t_stake (tr_trade tr)) ORDER_SETTLE
                                   (balance backWallet) s3)))) of
        Inl e \<Rightarrow> Inl e
      | Inr s4 \<Rightarrow> mark_settled (t_id (tr_trade tr)) s4)"

definition forceCloseMarket_tx :: "ident \<Rightarrow> ident list \<Rightarrow> db \<Rightarrow> error + (close_result \<times> db)" where
  "forceCloseMarket_tx marketId winnerSelectionIds s =
     (case find (\<lambda>m. m_id m = marketId) (markets s) of
        None \<Rightarrow> Inl (ApiError 404 Market_not_found)
      | Some market \<Rightarrow>
         if m_status market = SETTLED then Inl (ApiError 400 Market_already_settled)
         else
          (let marketRunners = filter (\<lambda>r. r_marketId r = m_id market) (runners s)
           in case update_market marketId CLOSED s of
                Inl e \<Rightarrow> Inl e
              | Inr s1 \<Rightarrow>
                 (case for_each
                         (\<lambda>sel. update_runner (r_id sel)
                                  (if 0 < length winnerSelectionIds
                                   then Some (r_id sel \<in> set winnerSelectionIds) else None))
                         marketRunners s1 of
                    Inl e \<Rightarrow> Inl e
                  | Inr s2 \<Rightarrow>
                     (let openOrders = open_orders marketId s2
                      in case for_each (force_cancel_order marketId) openOrders s2 of
                           Inl e \<Rightarrow> Inl e
                         | Inr s3 \<Rightarrow>
                            (let trs = unsettled_trades (map r_id marketRunners) s3
                             in case for_each force_settle_trade trs s3 of
                                  Inl e \<Rightarrow> Inl e
                                | Inr s4 \<Rightarrow>
                                   (case update_market marketId SETTLED s4 of
                                      Inl e \<Rightarrow> Inl e
                                    | Inr s5 \<Rightarrow>
                                        Inr (\<lparr>cancelledOrders = length openOrders,
                                              settledTrades = length trs\<rparr>, s5)))))))"

definition forceCloseMarket :: "ident \<Rightarrow> ident list \<Rightarrow> db \<Rightarrow> (error + close_result) \<times> db" where
  "forceCloseMarket marketId winnerSelectionIds s =
     transaction (forceCloseMarket_tx marketId winnerSelectionIds) s"

text \<open>
  \<open>updateMarketStatus\<close>: the requested status must be one of OPEN, SUSPENDED, CLOSED;
  the market's current status is not read. Like the force-close, the handler is reached by
  an administrator; the role check is left out.
\<close>

definition updateMarketStatus :: "ident \<Rightarrow> market_status \<Rightarrow> db \<Rightarrow> (error + market) \<times> db" where
  "updateMarketStatus marketId status s =
     (if \<not> (status = MARKET_OPEN \<or> status = SUSPENDED \<or> status = CLOSED)
      then (Inl (ApiError 400 Status_must_be_open_suspended_closed), s)
      else (case update_market marketId status s of
              Inl e \<Rightarrow> (Inl e, s)
            | Inr s' \<Rightarrow>
               (case find (\<lambda>m. m_id m = marketId) (markets s') of
                  None \<Rightarrow> (Inl RecordNotFound, s)
                | Some m \<Rightarrow> (Inr m, s'))))"

section \<open>Reading the exposure tables\<close>


definition total_market_exposure :: "ident \<Rightarrow> db \<Rightarrow> decimal" where
  "total_market_exposure userId s =
     sum_list (map e_exposureAmount (filter (\<lambda>x. e_userId x = userId) (marketExposures s)))"

section \<open>Amounts of the refund and of the release\<close>



section \<open>The stakes a run of the engine trades\<close>


section \<open>A small exchange\<close>

text \<open>
  Two users with 1000 each, one open market with two runners, an empty book: the state
  the scenarios below start from.
\<close>

definition scenario_db :: db where
  "scenario_db =
     \<lparr>wallets = [1 \<mapsto> \<lparr>balance = 1000, exposure = 0\<rparr>, 2 \<mapsto> \<lparr>balance = 1000, exposure = 0\<rparr>],
      ledger = [], matches = [7 \<mapsto> LIVE],
      markets = [\<lparr>m_id = 5, m_matchId = 7, m_status = MARKET_OPEN\<rparr>],
      runners = [\<lparr>r_id = 3, r_marketId = 5, r_name = ''A'', r_isWinner = None\<rparr>,
                 \<lparr>r_id = 4, r_marketId = 5, r_name = ''B'', r_isWinner = None\<rparr>],
      orders = [], trades = [], marketExposures = []\<rparr>"

text \<open>
  User 1 backs runner 3 at 2 for 100, user 2 lays the same: one trade at price 2, stake 100,
  both orders MATCHED.
\<close>

definition matched_db :: db where
  "matched_db = snd (placeOrder 11 2 5 3 LAY 2 100 (snd (placeOrder 10 1 5 3 BACK 2 100 scenario_db)))"


section \<open>Basic facts about the table operations\<close>

lemma fresh_id_bound: "x \<in> set ids \<Longrightarrow> x \<le> fold max ids (a::nat)"
proof (induction ids arbitrary: a)
  case Nil
  then show ?case by simp
next
  case (Cons y ys)
  have mono: "b \<le> fold max ys b" for b :: nat and ys
  proof (induction ys arbitrary: b)
    case Nil
    show ?case by simp
  next
    case (Cons z zs)
    have "b \<le> max z b" by simp
    also have "\<dots> \<le> fold max zs (max z b)" by (rule Cons.IH)
    finally show ?case by simp
  qed
  show ?case
  proof (cases "x = y")
    case True
    have "y \<le> max y a" by simp
    also have "\<dots> \<le> fold max ys (max y a)" by (rule mono)
    finally show ?thesis using True by simp
  next
    case False
    with Cons.prems have "x \<in> set ys" by simp
    from Cons.IH[OF this] show ?thesis by simp
  qed
qed

lemma fresh_id_notin: "fresh_id ids \<notin> set ids"
proof
  assume "fresh_id ids \<in> set ids"
  from fresh_id_bound[OF this, of 0] show False by (simp add: fresh_id_def)
qed

lemma update_wallet_Inr:
  "update_wallet u f s = Inr (w, s') \<Longrightarrow>
     \<exists>w0. wallets s u = Some w0 \<and> w = f w0 \<and> s' = s\<lparr>wallets := (wallets s)(u \<mapsto> f w0)\<rparr>"
  by (auto simp: update_wallet_def split: option.splits)

lemma update_order_Inr:
  "update_order oid f s = Inr s' \<Longrightarrow>
     s' = s\<lparr>orders := map (\<lambda>x. if o_id x = oid then f x else x) (orders s)\<rparr>"
  by (auto simp: update_order_def split: option.splits)

lemma adjustExposure_frame [simp]:
  "wallets (adjustExposure u m d s) = wallets s"
  "ledger (adjustExposure u m d s) = ledger s"
  "matches (adjustExposure u m d s) = matches s"
  "markets (adjustExposure u m d s) = markets s"
  "runners (adjustExposure u m d s) = runners s"
  "orders (adjustExposure u m d s) = orders s"
  "trades (adjustExposure u m d s) = trades s"
  by (simp_all add: adjustExposure_def split: option.splits)

lemma create_ledger_frame [simp]:
  "wallets (create_ledger u a ty b s) = wallets s"
  "ledger (create_ledger u a ty b s) =
     ledger s @ [\<lparr>l_userId = u, l_amount = a, l_type = ty, l_balance = b\<rparr>]"
  "matches (create_ledger u a ty b s) = matches s"
  "markets (create_ledger u a ty b s) = markets s"
  "runners (create_ledger u a ty b s) = runners s"
  "orders (create_ledger u a ty b s) = orders s"
  "trades (create_ledger u a ty b s) = trades s"
  "marketExposures (create_ledger u a ty b s) = marketExposures s"
  by (simp_all add: create_ledger_def)

lemma decrement_market_exposure_frame [simp]:
  "wallets (decrement_market_exposure u m d s) = wallets s"
  "ledger (decrement_market_exposure u m d s) = ledger s"
  "matches (decrement_market_exposure u m d s) = matches s"
  "markets (decrement_market_exposure u m d s) = markets s"
  "runners (decrement_market_exposure u m d s) = runners s"
  "orders (decrement_market_exposure u m d s) = orders s"
  "trades (decrement_market_exposure u m d s) = trades s"
  by (simp_all add: decrement_market_exposure_def)

lemma match_step_frame:
  assumes "match_step sd inc sel c ts s = Inr (ti, s')"
  shows "wallets s' = wallets s \<and> ledger s' = ledger s \<and> matches s' = matches s
         \<and> markets s' = markets s \<and> runners s' = runners s"
  using assms
  by (auto simp: match_step_def Let_def create_trade_def
           split: side.splits option.splits sum.splits prod.splits dest!: update_order_Inr)

lemma match_loop_step:
  assumes "match_loop sd inc sel (c # cs) r trs s = Inr (res, s')" and "\<not> r \<le> 0"
  obtains ti s1 where
    "match_step sd inc sel c (if r < c_remainingStake c then r else c_remainingStake c) s
       = Inr (ti, s1)"
    "match_loop sd inc sel cs (r - (if r < c_remainingStake c then r else c_remainingStake c))
       (trs @ [ti]) s1 = Inr (res, s')"
  using assms by (auto simp: Let_def split: sum.splits)

lemma match_loop_frame:
  "match_loop sd inc sel cs r trs s = Inr (res, s') \<Longrightarrow>
     wallets s' = wallets s \<and> ledger s' = ledger s \<and> matches s' = matches s
     \<and> markets s' = markets s \<and> runners s' = runners s"
proof (induction cs arbitrary: r trs s)
  case Nil
  then show ?case by simp
next
  case (Cons c cs)
  show ?case
  proof (cases "r \<le> 0")
    case True
    with Cons.prems show ?thesis by simp
  next
    case False
    from Cons.prems False obtain ti s1 where
      st: "match_step sd inc sel c (if r < c_remainingStake c then r else c_remainingStake c) s
             = Inr (ti, s1)" and
      rest: "match_loop sd inc sel cs
               (r - (if r < c_remainingStake c then r else c_remainingStake c)) (trs @ [ti]) s1
             = Inr (res, s')"
      by (rule match_loop_step)
    from match_step_frame[OF st] Cons.IH[OF rest] show ?thesis by simp
  qed
qed

lemma match_order_frame:
  assumes "(case sd of BACK \<Rightarrow> matchBackOrder oid sel p st
                     | LAY \<Rightarrow> matchLayOrder oid sel p st) s = Inr (mr, s')"
  shows "wallets s' = wallets s \<and> ledger s' = ledger s \<and> matches s' = matches s
         \<and> markets s' = markets s \<and> runners s' = runners s"
proof (cases sd)
  case BACK
  with assms obtain res where
    "match_loop BACK oid sel (map to_candidate (lay_candidate_rows sel p s)) st [] s = Inr (res, s')"
    by (auto simp: matchBackOrder_def split: sum.splits prod.splits)
  then show ?thesis by (rule match_loop_frame)
next
  case LAY
  with assms obtain res where
    "match_loop LAY oid sel (map to_candidate (back_candidate_rows sel p s)) st [] s = Inr (res, s')"
    by (auto simp: matchLayOrder_def split: sum.splits prod.splits)
  then show ?thesis by (rule match_loop_frame)
qed

text \<open>
  The steps of a successful placement transaction: the state the matching engine starts
  from, holding the raised exposure, the new order and the lock entry, then the engine's
  run, then the update of the new order.
\<close>

lemma placeOrder_tx_Inr:
  assumes "placeOrder_tx now u m sel sd p st s = Inr (res, s')"
  obtains market w mr s4 where
    "find (\<lambda>x. m_id x = m) (markets s) = Some market"
    "m_status market = MARKET_OPEN"
    "wallets s u = Some w"
    "\<not> balance w - exposure w < (case sd of BACK \<Rightarrow> st | LAY \<Rightarrow> (p - 1) * st)"
    "(case sd of
        BACK \<Rightarrow> matchBackOrder (fresh_id (map o_id (orders s))) sel p st
        | LAY \<Rightarrow> matchLayOrder (fresh_id (map o_id (orders s))) sel p st)
       (s\<lparr>wallets := (wallets s)(u \<mapsto> w\<lparr>exposure := exposure w
               + (case sd of BACK \<Rightarrow> st | LAY \<Rightarrow> (p - 1) * st)\<rparr>),
          orders := orders s @
            [\<lparr>o_id = fresh_id (map o_id (orders s)), o_userId = u, o_marketId = m,
              o_selectionId = sel, o_side = sd, o_price = p, o_stake = st, o_matchedStake = 0,
              o_remainingStake = st, o_status = OPEN,
              o_lockedExposure = (case sd of BACK \<Rightarrow> st | LAY \<Rightarrow> (p - 1) * st),
              o_createdAt = now\<rparr>],
          ledger := ledger s @
            [\<lparr>l_userId = u, l_amount = - (case sd of BACK \<Rightarrow> st | LAY \<Rightarrow> (p - 1) * st),
              l_type = EXPOSURE_LOCK, l_balance = balance w\<rparr>]\<rparr>)
      = Inr (mr, s4)"
    "update_order (fresh_id (map o_id (orders s)))
       (\<lambda>x. x\<lparr>o_matchedStake := mr_matchedStake mr, o_remainingStake := mr_remainingStake mr,
               o_status := (if mr_remainingStake mr \<le> 0 then MATCHED
                            else if 0 < mr_matchedStake mr then PARTIAL else OPEN)\<rparr>) s4
      = Inr s'"
    "find_order (fresh_id (map o_id (orders s))) s' = Some (pr_order res)"
    "pr_trades res = mr_trades mr"
    "pr_matchedStake res = mr_matchedStake mr"
    "pr_remainingStake res = mr_remainingStake mr"
  using assms
  by (cases sd)
     (auto simp: placeOrder_tx_def Let_def update_wallet_def create_order_def create_ledger_def
           split: option.splits if_splits sum.splits prod.splits)

lemma placeOrder_tx_wallets:
  assumes "placeOrder_tx now u m sel sd p st s = Inr (res, s')"
  shows "\<exists>w. wallets s u = Some w
           \<and> wallets s' = (wallets s)(u \<mapsto> w\<lparr>exposure := exposure w
                 + (case sd of BACK \<Rightarrow> st | LAY \<Rightarrow> (p - 1) * st)\<rparr>)
           \<and> ledger s' = ledger s @ [\<lparr>l_userId = u,
                 l_amount = - (case sd of BACK \<Rightarrow> st | LAY \<Rightarrow> (p - 1) * st),
                 l_type = EXPOSURE_LOCK, l_balance = balance w\<rparr>]
           \<and> matches s' = matches s \<and> markets s' = markets s \<and> runners s' = runners s"
proof -
  from assms obtain market w mr s4 where w: "wallets s u = Some w"
    and m: "(case sd of
        BACK \<Rightarrow> matchBackOrder (fresh_id (map o_id (orders s))) sel p st
        | LAY \<Rightarrow> matchLayOrder (fresh_id (map o_id (orders s))) sel p st)
       (s\<lparr>wallets := (wallets s)(u \<mapsto> w\<lparr>exposure := exposure w
               + (case sd of BACK \<Rightarrow> st | LAY \<Rightarrow> (p - 1) * st)\<rparr>),
          orders := orders s @
            [\<lparr>o_id = fresh_id (map o_id (orders s)), o_userId = u, o_marketId = m,
              o_selectionId = sel, o_side = sd, o_price = p, o_stake = st, o_matchedStake = 0,
              o_remainingStake = st, o_status = OPEN,
              o_lockedExposure = (case sd of BACK \<Rightarrow> st | LAY \<Rightarrow> (p - 1) * st),
              o_createdAt = now\<rparr>],
          ledger := ledger s @
            [\<lparr>l_userId = u, l_amount = - (case sd of BACK \<Rightarrow> st | LAY \<Rightarrow> (p - 1) * st),
              l_type = EXPOSURE_LOCK, l_balance = balance w\<rparr>]\<rparr>)
      = Inr (mr, s4)"
    and u: "update_order (fresh_id (map o_id (orders s)))
       (\<lambda>x. x\<lparr>o_matchedStake := mr_matchedStake mr, o_remainingStake := mr_remainingStake mr,
               o_status := (if mr_remainingStake mr \<le> 0 then MATCHED
                            else if 0 < mr_matchedStake mr then PARTIAL else OPEN)\<rparr>) s4
      = Inr s'"
    by (rule placeOrder_tx_Inr)
  from match_order_frame[OF m] update_order_Inr[OF u] w show ?thesis by simp
qed

section \<open>Basic facts about the settlement steps\<close>

lemma for_each_preserves:
  assumes "\<And>x t t'. f x t = Inr t' \<Longrightarrow> g t' = g t" and "for_each f xs s = Inr s'"
  shows "g s' = g s"
  using assms(2)
proof (induction xs arbitrary: s)
  case Nil
  then show ?case by simp
next
  case (Cons x xs)
  then obtain s1 where "f x s = Inr s1" "for_each f xs s1 = Inr s'"
    by (auto split: sum.splits)
  with Cons.IH[of s1] assms(1)[of x s s1] show ?case by simp
qed

lemma update_runner_Inr:
  "update_runner rid w s = Inr s' \<Longrightarrow>
     s' = s\<lparr>runners := map (\<lambda>r. if r_id r = rid then r\<lparr>r_isWinner := w\<rparr> else r) (runners s)\<rparr>"
  by (auto simp: update_runner_def split: option.splits)

lemma update_market_Inr:
  "update_market mid st s = Inr s' \<Longrightarrow>
     s' = s\<lparr>markets := map (\<lambda>m. if m_id m = mid then m\<lparr>m_status := st\<rparr> else m) (markets s)\<rparr>"
  by (auto simp: update_market_def split: option.splits)

lemma mark_settled_Inr:
  "mark_settled tid s = Inr s' \<Longrightarrow>
     s' = s\<lparr>trades := map (\<lambda>t. if t_id t = tid then t\<lparr>t_settled := True\<rparr> else t) (trades s)\<rparr>"
  by (auto simp: mark_settled_def split: option.splits)

lemma creditWallet_Inr:
  "creditWallet u a s = Inr s' \<Longrightarrow>
     \<exists>w. wallets s u = Some w
        \<and> s' = create_ledger u a ORDER_SETTLE (balance w + a)
                 (s\<lparr>wallets := (wallets s)(u \<mapsto> w\<lparr>balance := balance w + a\<rparr>)\<rparr>)"
  by (auto simp: creditWallet_def split: sum.splits dest!: update_wallet_Inr)

lemma releaseExposure_Inr:
  "releaseExposure u m a s = Inr s' \<Longrightarrow>
     \<exists>w. wallets s u = Some w
        \<and> s' = decrement_market_exposure u m a
                 (s\<lparr>wallets := (wallets s)(u \<mapsto> w\<lparr>exposure := exposure w - a\<rparr>)\<rparr>)"
  by (auto simp: releaseExposure_def split: sum.splits dest!: update_wallet_Inr)

lemma force_refund_Inr:
  "force_refund ua s = Inr s' \<Longrightarrow>
     \<exists>w. wallets s (fst ua) = Some w
        \<and> s' = create_ledger (fst ua) (snd ua) ORDER_SETTLE (balance w + snd ua)
                 (s\<lparr>wallets := (wallets s)(fst ua \<mapsto> w\<lparr>balance := balance w + snd ua\<rparr>)\<rparr>)"
  by (auto simp: force_refund_def split: sum.splits dest!: update_wallet_Inr)

text \<open>Settling trades and cancelling orders write neither markets nor runners.\<close>

lemma settleTrade_frame:
  "settleTrade tr outc s = Inr s' \<Longrightarrow>
     markets s' = markets s \<and> runners s' = runners s \<and> orders s' = orders s
     \<and> matches s' = matches s"
  by (cases outc)
     (auto simp: settleTrade_def Let_def split: sum.splits
           dest!: creditWallet_Inr releaseExposure_Inr mark_settled_Inr)

lemma refundTrade_frame:
  "refundTrade tr s = Inr s' \<Longrightarrow>
     markets s' = markets s \<and> runners s' = runners s \<and> orders s' = orders s
     \<and> matches s' = matches s"
  by (auto simp: refundTrade_def Let_def split: sum.splits
           dest!: creditWallet_Inr mark_settled_Inr)

lemma settle_one_frame:
  "settle_one tr s = Inr s' \<Longrightarrow>
     markets s' = markets s \<and> runners s' = runners s \<and> orders s' = orders s
     \<and> matches s' = matches s"
  by (auto simp: settle_one_def split: option.splits bool.splits
           dest: settleTrade_frame refundTrade_frame)

lemma cancel_open_order_frame:
  "cancel_open_order m x s = Inr s' \<Longrightarrow>
     markets s' = markets s \<and> runners s' = runners s \<and> trades s' = trades s
     \<and> matches s' = matches s"
  by (auto simp: cancel_open_order_def Let_def split: sum.splits option.splits prod.splits
           dest!: update_order_Inr update_wallet_Inr)

lemma force_cancel_order_frame:
  "force_cancel_order m x s = Inr s' \<Longrightarrow>
     markets s' = markets s \<and> runners s' = runners s \<and> trades s' = trades s
     \<and> matches s' = matches s"
  by (auto simp: force_cancel_order_def Let_def split: sum.splits option.splits prod.splits
           dest!: update_order_Inr update_wallet_Inr)

lemma force_settle_trade_frame:
  "force_settle_trade tr s = Inr s' \<Longrightarrow>
     markets s' = markets s \<and> runners s' = runners s \<and> orders s' = orders s
     \<and> matches s' = matches s"
  by (auto simp: force_settle_trade_def Let_def
           split: sum.splits option.splits bool.splits prod.splits
           dest!: update_wallet_Inr force_refund_Inr mark_settled_Inr)

lemma update_runner_frame:
  "update_runner rid w s = Inr s' \<Longrightarrow>
     markets s' = markets s \<and> orders s' = orders s \<and> trades s' = trades s
     \<and> wallets s' = wallets s \<and> ledger s' = ledger s \<and> matches s' = matches s
     \<and> marketExposures s' = marketExposures s"
  by (auto dest!: update_runner_Inr)

text \<open>The steps of a successful force-close.\<close>

lemma forceCloseMarket_tx_Inr:
  assumes "forceCloseMarket_tx marketId winners s = Inr (res, s')"
  obtains market s1 s2 s3 s4 where
    "find (\<lambda>m. m_id m = marketId) (markets s) = Some market"
    "m_status market \<noteq> SETTLED"
    "update_market marketId CLOSED s = Inr s1"
    "for_each
       (\<lambda>sel. update_runner (r_id sel)
                 (if 0 < length winners then Some (r_id sel \<in> set winners) else None))
       (filter (\<lambda>r. r_marketId r = m_id market) (runners s)) s1 = Inr s2"
    "for_each (force_cancel_order marketId) (open_orders marketId s2) s2 = Inr s3"
    "for_each force_settle_trade
       (unsettled_trades (map r_id (filter (\<lambda>r. r_marketId r = m_id market) (runners s))) s3)
       s3 = Inr s4"
    "update_market marketId SETTLED s4 = Inr s'"
  using assms
  by (auto simp: forceCloseMarket_tx_def Let_def simp del: length_greater_0_conv
           split: option.splits if_splits sum.splits)

text \<open>The defining equations, for running the operations on a given database.\<close>

lemmas place_eval =
  placeOrder_def transaction_def placeOrder_tx_def update_wallet_def create_order_def
  create_ledger_def matchBackOrder_def matchLayOrder_def lay_candidate_rows_def
  back_candidate_rows_def update_order_def find_order_def fresh_id_def match_step_def
  create_trade_def adjustExposure_def to_candidate_def Let_def cancelOrder_def cancelOrder_tx_def

lemmas settle_eval =
  forceCloseMarket_def forceCloseMarket_tx_def transaction_def update_market_def
  update_runner_def open_orders_def force_cancel_order_def unsettled_trades_def
  include_trade_def force_settle_trade_def force_refund_def mark_settled_def
  decrement_market_exposure_def settleMatch_def settleMatch_tx_def settle_market_def
  settle_one_def settleTrade_def refundTrade_def creditWallet_def releaseExposure_def
  cancelOpenOrders_def cancel_open_order_def update_wallet_def update_order_def
  find_order_def create_ledger_def Let_def

text \<open>The matched book, written out.\<close>

lemma matched_db_eq:
  "matched_db =
     \<lparr>wallets = [1 \<mapsto> \<lparr>balance = 1000, exposure = 100\<rparr>, 2 \<mapsto> \<lparr>balance = 1000, exposure = 100\<rparr>],
      ledger = [\<lparr>l_userId = 1, l_amount = - 100, l_type = EXPOSURE_LOCK, l_balance = 1000\<rparr>,
                \<lparr>l_userId = 2, l_amount = - 100, l_type = EXPOSURE_LOCK, l_balance = 1000\<rparr>],
      matches = [7 \<mapsto> LIVE],
      markets = [\<lparr>m_id = 5, m_matchId = 7, m_status = MARKET_OPEN\<rparr>],
      runners = [\<lparr>r_id = 3, r_marketId = 5, r_name = ''A'', r_isWinner = None\<rparr>,
                 \<lparr>r_id = 4, r_marketId = 5, r_name = ''B'', r_isWinner = None\<rparr>],
      orders = [\<lparr>o_id = 1, o_userId = 1, o_marketId = 5, o_selectionId = 3, o_side = BACK,
                  o_price = 2, o_stake = 100, o_matchedStake = 100, o_remainingStake = 0,
                  o_status = MATCHED, o_lockedExposure = 100, o_createdAt = 10\<rparr>,
                \<lparr>o_id = 2, o_userId = 2, o_marketId = 5, o_selectionId = 3, o_side = LAY,
                  o_price = 2, o_stake = 100, o_matchedStake = 100, o_remainingStake = 0,
                  o_status = MATCHED, o_lockedExposure = 100, o_createdAt = 11\<rparr>],
      trades = [\<lparr>t_id = 1, t_backOrderId = 1, t_layOrderId = 2, t_selectionId = 3,
                  t_price = 2, t_stake = 100, t_settled = False\<rparr>],
      marketExposures = [\<lparr>e_userId = 1, e_marketId = 5, e_exposureAmount = 0\<rparr>]\<rparr>"
  by (simp add: matched_db_def place_eval scenario_db_def fun_upd_twist)

section \<open>Lookups after an update\<close>

lemma find_map_update:
  assumes "\<And>x. P (f x) = P x"
  shows "find P (map (\<lambda>x. if P x then f x else x) xs) = map_option f (find P xs)"
  using assms by (induction xs) auto


lemma find_order_update:
  assumes "update_order oid f s = Inr s'" and "\<And>x. o_id (f x) = o_id x"
  shows "find_order oid s' = map_option f (find_order oid s)"
proof -
  have "find (\<lambda>x. o_id x = oid) (map (\<lambda>x. if o_id x = oid then f x else x) (orders s))
          = map_option f (find (\<lambda>x. o_id x = oid) (orders s))"
    by (rule find_map_update) (simp add: assms(2))
  with update_order_Inr[OF assms(1)] show ?thesis by (simp add: find_order_def)
qed



text \<open>
  One step of the matching loop, when it succeeds: the candidate is a row of the order
  table, a trade is appended, the candidate's fill state is updated, and the exposure row
  of the candidate's user and market is adjusted by \<open>d\<close>.
\<close>

lemma match_step_Inr:
  assumes "match_step incoming inc sel c ts s = Inr (ti, s')"
  obtains row where
    "find_order (c_id c) s = Some row"
    "ti = \<lparr>ti_tradeId = fresh_id (map t_id (trades s)), ti_price = c_price c, ti_stake = ts\<rparr>"
    "s' = adjustExposure (c_userId c) (o_marketId row)
            (case incoming of BACK \<Rightarrow> - ((c_price c - 1) * ts) | LAY \<Rightarrow> - ts)
            (s\<lparr>trades := trades s @
                  [\<lparr>t_id = fresh_id (map t_id (trades s)),
                    t_backOrderId = (case incoming of BACK \<Rightarrow> inc | LAY \<Rightarrow> c_id c),
                    t_layOrderId = (case incoming of BACK \<Rightarrow> c_id c | LAY \<Rightarrow> inc),
                    t_selectionId = sel, t_price = c_price c, t_stake = ts,
                    t_settled = False\<rparr>],
                orders := map (\<lambda>x. if o_id x = c_id c
                                     then x\<lparr>o_matchedStake := o_matchedStake row + ts,
                                            o_remainingStake := c_remainingStake c - ts,
                                            o_status := (if c_remainingStake c - ts \<le> 0
                                                         then MATCHED else PARTIAL)\<rparr>
                                     else x) (orders s)\<rparr>)"
  using assms
  by (cases incoming)
     (auto simp: match_step_def Let_def create_trade_def update_order_def find_order_def
                 find_map_update
           split: option.splits sum.splits)






section \<open>What matching leaves fixed in the order table\<close>

lemma find_same_keys:
  assumes "map k xs = map k ys" and "\<And>x y. k x = k y \<Longrightarrow> P x = P y"
  shows "map_option k (find P xs) = map_option k (find P ys)"
  using assms(1)
proof (induction xs arbitrary: ys)
  case Nil
  then show ?case by simp
next
  case (Cons x xs)
  then obtain y ys' where ys: "ys = y # ys'" and k: "k x = k y" and r: "map k xs = map k ys'"
    by (cases ys) auto
  from assms(2)[OF k] Cons.IH[OF r] k show ?case by (simp add: ys)
qed

lemma find_distinct_id:
  "distinct (map o_id xs) \<Longrightarrow> x \<in> set xs \<Longrightarrow> find (\<lambda>y. o_id y = o_id x) xs = Some x"
  by (induction xs) (auto simp: image_iff)

lemma map_key_update:
  assumes "\<And>x. k (f x) = k x"
  shows "map k (map (\<lambda>x. if P x then f x else x) xs) = map k xs"
  using assms by (induction xs) auto

lemma match_step_trade:
  assumes "match_step sd inc sel c ts s = Inr (ti, s1)"
  shows "\<exists>t. ti = \<lparr>ti_tradeId = t_id t, ti_price = t_price t, ti_stake = t_stake t\<rparr>
           \<and> t_selectionId t = sel \<and> t_price t = c_price c \<and> t_stake t = ts
           \<and> (case sd of BACK \<Rightarrow> t_backOrderId t | LAY \<Rightarrow> t_layOrderId t) = inc
           \<and> (case sd of BACK \<Rightarrow> t_layOrderId t | LAY \<Rightarrow> t_backOrderId t) = c_id c
           \<and> trades s1 = trades s @ [t]
           \<and> map (\<lambda>x. (o_id x, o_side x, o_selectionId x, o_userId x)) (orders s1)
               = map (\<lambda>x. (o_id x, o_side x, o_selectionId x, o_userId x)) (orders s)"
proof -
  define t where "t =
     \<lparr>t_id = fresh_id (map t_id (trades s)),
       t_backOrderId = (case sd of BACK \<Rightarrow> inc | LAY \<Rightarrow> c_id c),
       t_layOrderId = (case sd of BACK \<Rightarrow> c_id c | LAY \<Rightarrow> inc),
       t_selectionId = sel, t_price = c_price c, t_stake = ts, t_settled = False\<rparr>"
  from assms obtain row where
    "find_order (c_id c) s = Some row"
    and ti: "ti = \<lparr>ti_tradeId = fresh_id (map t_id (trades s)), ti_price = c_price c,
                    ti_stake = ts\<rparr>"
    and s1: "s1 = adjustExposure (c_userId c) (o_marketId row)
            (case sd of BACK \<Rightarrow> - ((c_price c - 1) * ts) | LAY \<Rightarrow> - ts)
            (s\<lparr>trades := trades s @ [t],
                orders := map (\<lambda>x. if o_id x = c_id c
                                     then x\<lparr>o_matchedStake := o_matchedStake row + ts,
                                            o_remainingStake := c_remainingStake c - ts,
                                            o_status := (if c_remainingStake c - ts \<le> 0
                                                         then MATCHED else PARTIAL)\<rparr>
                                     else x) (orders s)\<rparr>)"
    unfolding t_def by (rule match_step_Inr)
  have "map (\<lambda>x. (o_id x, o_side x, o_selectionId x, o_userId x)) (orders s1)
          = map (\<lambda>x. (o_id x, o_side x, o_selectionId x, o_userId x)) (orders s)"
    unfolding s1 by (simp add: map_key_update)
  moreover have "trades s1 = trades s @ [t]" unfolding s1 by simp
  moreover have "(case sd of BACK \<Rightarrow> t_backOrderId t | LAY \<Rightarrow> t_layOrderId t) = inc"
    "(case sd of BACK \<Rightarrow> t_layOrderId t | LAY \<Rightarrow> t_backOrderId t) = c_id c"
    by (cases sd; simp add: t_def)+
  ultimately show ?thesis
    by (intro exI[of _ t]) (simp add: ti t_def)
qed

text \<open>
  A run of the matching loop appends trades and rewrites fill states. Each new trade is on
  the selection and joins the incoming order with one of the candidates, on the side the
  incoming order's side fixes; the returned summaries are those of the new trades; and no
  row of the order table changes its identifier, side, selection or owner.
\<close>

lemma match_loop_trades:
  assumes "match_loop sd inc sel cs r trs s = Inr ((r', trs'), s')"
  shows "\<exists>new. trades s' = trades s @ new
           \<and> trs' = trs @ map (\<lambda>t. \<lparr>ti_tradeId = t_id t, ti_price = t_price t,
                                      ti_stake = t_stake t\<rparr>) new
           \<and> (\<forall>t\<in>set new. t_selectionId t = sel
                  \<and> (case sd of BACK \<Rightarrow> t_backOrderId t | LAY \<Rightarrow> t_layOrderId t) = inc
                  \<and> (case sd of BACK \<Rightarrow> t_layOrderId t | LAY \<Rightarrow> t_backOrderId t)
                        \<in> c_id ` set cs)
           \<and> map (\<lambda>x. (o_id x, o_side x, o_selectionId x, o_userId x)) (orders s')
               = map (\<lambda>x. (o_id x, o_side x, o_selectionId x, o_userId x)) (orders s)"
  using assms
proof (induction cs arbitrary: r trs s)
  case Nil
  then show ?case by simp
next
  case (Cons c cs)
  show ?case
  proof (cases "r \<le> 0")
    case True
    with Cons.prems show ?thesis by simp
  next
    case False
    let ?ts = "if r < c_remainingStake c then r else c_remainingStake c"
    from Cons.prems False obtain ti s1 where
      st: "match_step sd inc sel c ?ts s = Inr (ti, s1)" and
      rest: "match_loop sd inc sel cs (r - ?ts) (trs @ [ti]) s1 = Inr ((r', trs'), s')"
      by (rule match_loop_step)
    from match_step_trade[OF st] obtain t where
      ti: "ti = \<lparr>ti_tradeId = t_id t, ti_price = t_price t, ti_stake = t_stake t\<rparr>"
      and t: "t_selectionId t = sel"
        "(case sd of BACK \<Rightarrow> t_backOrderId t | LAY \<Rightarrow> t_layOrderId t) = inc"
        "(case sd of BACK \<Rightarrow> t_layOrderId t | LAY \<Rightarrow> t_backOrderId t) = c_id c"
      and tr1: "trades s1 = trades s @ [t]"
      and o1: "map (\<lambda>x. (o_id x, o_side x, o_selectionId x, o_userId x)) (orders s1)
               = map (\<lambda>x. (o_id x, o_side x, o_selectionId x, o_userId x)) (orders s)"
      by blast
    from Cons.IH[OF rest] obtain new where
      n: "trades s' = trades s1 @ new"
        "trs' = (trs @ [ti]) @ map (\<lambda>t. \<lparr>ti_tradeId = t_id t, ti_price = t_price t,
                                         ti_stake = t_stake t\<rparr>) new"
        "\<forall>t\<in>set new. t_selectionId t = sel
            \<and> (case sd of BACK \<Rightarrow> t_backOrderId t | LAY \<Rightarrow> t_layOrderId t) = inc
            \<and> (case sd of BACK \<Rightarrow> t_layOrderId t | LAY \<Rightarrow> t_backOrderId t) \<in> c_id ` set cs"
        "map (\<lambda>x. (o_id x, o_side x, o_selectionId x, o_userId x)) (orders s')
           = map (\<lambda>x. (o_id x, o_side x, o_selectionId x, o_userId x)) (orders s1)"
      by blast
    show ?thesis
    proof (intro exI[of _ "t # new"] conjI)
      show "trades s' = trades s @ t # new" using n(1) tr1 by simp
      show "trs' = trs @ map (\<lambda>t. \<lparr>ti_tradeId = t_id t, ti_price = t_price t,
                                      ti_stake = t_stake t\<rparr>) (t # new)"
        using n(2) ti by simp
      show "\<forall>t\<in>set (t # new). t_selectionId t = sel
            \<and> (case sd of BACK \<Rightarrow> t_backOrderId t | LAY \<Rightarrow> t_layOrderId t) = inc
            \<and> (case sd of BACK \<Rightarrow> t_layOrderId t | LAY \<Rightarrow> t_backOrderId t)
                  \<in> c_id ` set (c # cs)"
        using n(3) t by auto
      show "map (\<lambda>x. (o_id x, o_side x, o_selectionId x, o_userId x)) (orders s')
               = map (\<lambda>x. (o_id x, o_side x, o_selectionId x, o_userId x)) (orders s)"
        using n(4) o1 by simp
    qed
  qed
qed

lemma find_order_same_keys:
  assumes "map (\<lambda>x. (o_id x, o_side x, o_selectionId x, o_userId x)) (orders a)
             = map (\<lambda>x. (o_id x, o_side x, o_selectionId x, o_userId x)) (orders b)"
    and "find_order i b = Some x"
  shows "\<exists>y. find_order i a = Some y \<and> o_id y = o_id x \<and> o_side y = o_side x
             \<and> o_selectionId y = o_selectionId x \<and> o_userId y = o_userId x"
proof -
  have "map_option (\<lambda>x. (o_id x, o_side x, o_selectionId x, o_userId x))
          (find (\<lambda>x. o_id x = i) (orders a))
        = map_option (\<lambda>x. (o_id x, o_side x, o_selectionId x, o_userId x))
            (find (\<lambda>x. o_id x = i) (orders b))"
    by (rule find_same_keys[OF assms(1)]) simp
  with assms(2) show ?thesis by (auto simp: find_order_def)
qed

text \<open>Every candidate is a resting row of the opposite side on the selection.\<close>

lemma candidate_rows:
  assumes "i \<in> c_id ` set (map to_candidate
             (case sd of BACK \<Rightarrow> lay_candidate_rows sel p s
                       | LAY \<Rightarrow> back_candidate_rows sel p s))"
  shows "\<exists>row\<in>set (orders s). o_id row = i \<and> o_selectionId row = sel
            \<and> o_side row = (case sd of BACK \<Rightarrow> LAY | LAY \<Rightarrow> BACK)"
  using assms
  by (cases sd)
     (auto simp: lay_candidate_rows_def back_candidate_rows_def to_candidate_def)

section \<open>The loops of the force-close\<close>














section \<open>The fills of a matching run\<close>






section \<open>Rejected placements\<close>

text \<open>
  Claim C8. A placement that fails because the market is not OPEN, or because the
  available balance (balance minus exposure) is below the required exposure, returns a
  400 error to the caller and leaves the whole database as it was: no order, no ledger
  entry, the wallet untouched.
\<close>

theorem placeOrder_rejected_unchanged:
  assumes "0 < stake" and "1 < price"
    and "find (\<lambda>m. m_id m = marketId) (markets s) = Some market"
  shows "(m_status market \<noteq> MARKET_OPEN \<longrightarrow>
            placeOrder now userId marketId selectionId sd price stake s
              = (Inl (ApiError 400 (Market_is (m_status market))), s))
       \<and> (m_status market = MARKET_OPEN
            \<longrightarrow> find (\<lambda>r. r_id r = selectionId \<and> r_marketId r = marketId) (runners s) = Some r
            \<longrightarrow> wallets s userId = Some w
            \<longrightarrow> balance w - exposure w < (case sd of BACK \<Rightarrow> stake | LAY \<Rightarrow> (price - 1) * stake)
            \<longrightarrow> placeOrder now userId marketId selectionId sd price stake s
                  = (Inl (ApiError 400
                       (Insufficient_balance
                          (case sd of BACK \<Rightarrow> stake | LAY \<Rightarrow> (price - 1) * stake)
                          (balance w - exposure w))), s))"
  using assms by (simp add: placeOrder_def transaction_def placeOrder_tx_def Let_def)

theorem placeOrder_rejected_unchanged_witness:
  "placeOrder 10 1 5 3 LAY 3 10
       (scenario_db\<lparr>wallets := [1 \<mapsto> \<lparr>balance = 50, exposure = 40\<rparr>]\<rparr>)
     = (Inl (ApiError 400 (Insufficient_balance 20 10)),
        scenario_db\<lparr>wallets := [1 \<mapsto> \<lparr>balance = 50, exposure = 40\<rparr>]\<rparr>)
   \<and> placeOrder 10 1 5 3 BACK 2 10
       (scenario_db\<lparr>markets := [\<lparr>m_id = 5, m_matchId = 7, m_status = SUSPENDED\<rparr>]\<rparr>)
     = (Inl (ApiError 400 (Market_is SUSPENDED)),
        scenario_db\<lparr>markets := [\<lparr>m_id = 5, m_matchId = 7, m_status = SUSPENDED\<rparr>]\<rparr>)"
  using placeOrder_rejected_unchanged
          [of 10 3 5 "scenario_db\<lparr>wallets := [1 \<mapsto> \<lparr>balance = 50, exposure = 40\<rparr>]\<rparr>"
              "\<lparr>m_id = 5, m_matchId = 7, m_status = MARKET_OPEN\<rparr>" 10 1 3 LAY
              "\<lparr>r_id = 3, r_marketId = 5, r_name = ''A'', r_isWinner = None\<rparr>"
              "\<lparr>balance = 50, exposure = 40\<rparr>"]
        placeOrder_rejected_unchanged
          [of 10 2 5 "scenario_db\<lparr>markets := [\<lparr>m_id = 5, m_matchId = 7, m_status = SUSPENDED\<rparr>]\<rparr>"
              "\<lparr>m_id = 5, m_matchId = 7, m_status = SUSPENDED\<rparr>" 10 1 3 BACK]
  by (simp add: scenario_db_def)

section \<open>Placement leaves balances alone\<close>

text \<open>
  Claim C10. Placing an order, with all the matching it triggers, changes no wallet's
  balance, the placer's and every counterparty's included, whether the placement succeeds
  or is rejected; it writes no match, market or runner either. Cancelling an order and
  changing a market's status change no balance; of the operations modelled here only
  settlement credits balances.
\<close>

theorem placeOrder_balance_unchanged:
  "map_option balance (wallets (snd (placeOrder now userId marketId selectionId sd price stake s)) v)
     = map_option balance (wallets s v)
   \<and> matches (snd (placeOrder now userId marketId selectionId sd price stake s)) = matches s
   \<and> markets (snd (placeOrder now userId marketId selectionId sd price stake s)) = markets s
   \<and> runners (snd (placeOrder now userId marketId selectionId sd price stake s)) = runners s
   \<and> map_option balance (wallets (snd (cancelOrder userId orderId s)) v)
       = map_option balance (wallets s v)
   \<and> map_option balance (wallets (snd (updateMarketStatus marketId status s)) v)
       = map_option balance (wallets s v)"
proof -
  have "map_option balance (wallets (snd (placeOrder now userId marketId selectionId sd price stake s)) v)
          = map_option balance (wallets s v)
      \<and> matches (snd (placeOrder now userId marketId selectionId sd price stake s)) = matches s
      \<and> markets (snd (placeOrder now userId marketId selectionId sd price stake s)) = markets s
      \<and> runners (snd (placeOrder now userId marketId selectionId sd price stake s)) = runners s"
  proof (cases "placeOrder_tx now userId marketId selectionId sd price stake s")
    case (Inl e)
    then show ?thesis by (simp add: placeOrder_def transaction_def)
  next
    case (Inr rs)
    obtain res s' where rs: "rs = (res, s')" by (cases rs)
    from placeOrder_tx_wallets[OF Inr[unfolded rs]] show ?thesis
      using Inr rs by (auto simp: placeOrder_def transaction_def)
  qed
  moreover have "map_option balance (wallets (snd (cancelOrder userId orderId s)) v)
          = map_option balance (wallets s v)"
    by (auto simp: cancelOrder_def transaction_def cancelOrder_tx_def Let_def
             split: option.splits sum.splits prod.splits
             dest!: update_order_Inr update_wallet_Inr)
  moreover have "map_option balance (wallets (snd (updateMarketStatus marketId status s)) v)
          = map_option balance (wallets s v)"
    by (auto simp: updateMarketStatus_def update_market_def split: option.splits sum.splits)
  ultimately show ?thesis by simp
qed

section \<open>Market status transitions\<close>

lemma settle_market_markets:
  assumes "settle_market w mr s = Inr s'"
  shows "markets s' =
           map (\<lambda>m. if m_id m = m_id (fst mr) then m\<lparr>m_status := SETTLED\<rparr> else m) (markets s)"
proof -
  from assms obtain s1 s2 s3 where
    a: "update_market (m_id (fst mr)) SETTLED s = Inr s1"
    and b: "for_each
              (\<lambda>r. update_runner (r_id r)
                      (Some (case w of None \<Rightarrow> False
                                     | Some n \<Rightarrow> toLowerCase (r_name r) = toLowerCase n)))
              (snd mr) s1 = Inr s2"
    and c: "for_each settle_one (unsettled_trades (map r_id (snd mr)) s2) s2 = Inr s3"
    and d: "for_each (cancel_open_order (m_id (fst mr))) (open_orders (m_id (fst mr)) s3) s3 = Inr s'"
    by (auto simp: settle_market_def Let_def cancelOpenOrders_def split: sum.splits)
  have "markets s2 = markets s1"
    by (rule for_each_preserves[OF _ b]) (simp add: update_runner_frame)
  moreover have "markets s3 = markets s2"
    by (rule for_each_preserves[OF _ c]) (simp add: settle_one_frame)
  moreover have "markets s' = markets s3"
    by (rule for_each_preserves[OF _ d]) (simp add: cancel_open_order_frame)
  ultimately show ?thesis using update_market_Inr[OF a] by simp
qed

lemma settle_markets_markets:
  "for_each (settle_market w) ms s = Inr s' \<Longrightarrow>
     markets s' =
       map (\<lambda>m. if m_id m \<in> set (map (\<lambda>mr. m_id (fst mr)) ms)
                 then m\<lparr>m_status := SETTLED\<rparr> else m) (markets s)"
proof (induction ms arbitrary: s)
  case Nil
  then show ?case by (simp add: map_idI)
next
  case (Cons mr ms)
  then obtain s1 where a: "settle_market w mr s = Inr s1"
    and b: "for_each (settle_market w) ms s1 = Inr s'"
    by (auto split: sum.splits)
  show ?case
    unfolding Cons.IH[OF b] settle_market_markets[OF a] by auto
qed

text \<open>
  Claim C7, as the code has it. No operation looks at the edge it takes.
  \<open>updateMarketStatus\<close> sets any market, whatever its status, to the requested status
  when that is OPEN, SUSPENDED or CLOSED, and rejects only a request for another status,
  with a 400 and no change. The force-close rejects a market that is SETTLED, with a 400
  and no change, and takes any other market to SETTLED. The automatic settlement of a match
  takes its OPEN and SUSPENDED markets straight to SETTLED and leaves the status of the
  other markets as it was.
\<close>

theorem market_status_transitions:
  "updateMarketStatus marketId status s =
     (if status = SETTLED then (Inl (ApiError 400 Status_must_be_open_suspended_closed), s)
      else case find (\<lambda>m. m_id m = marketId) (markets s) of
             None \<Rightarrow> (Inl RecordNotFound, s)
           | Some m \<Rightarrow>
               (Inr (m\<lparr>m_status := status\<rparr>),
                s\<lparr>markets := map (\<lambda>x. if m_id x = marketId then x\<lparr>m_status := status\<rparr> else x)
                                 (markets s)\<rparr>))
   \<and> (find (\<lambda>m. m_id m = marketId) (markets s) = Some market \<longrightarrow> m_status market = SETTLED \<longrightarrow>
        forceCloseMarket marketId winners s = (Inl (ApiError 400 Market_already_settled), s))
   \<and> (forceCloseMarket marketId winners s = (Inr res, s') \<longrightarrow>
        markets s' = map (\<lambda>x. if m_id x = marketId then x\<lparr>m_status := SETTLED\<rparr> else x)
                         (markets s))
   \<and> (settleMatch matchId winnerName s = (Inr u, s'') \<longrightarrow>
        markets s'' =
          map (\<lambda>x. if m_id x \<in> set (map m_id (filter (\<lambda>m. m_matchId m = matchId
                        \<and> (m_status m = MARKET_OPEN \<or> m_status m = SUSPENDED)) (markets s)))
                    then x\<lparr>m_status := SETTLED\<rparr> else x) (markets s))"
proof (intro conjI impI)
  have find_upd: "find (\<lambda>m. m_id m = marketId)
                    (map (\<lambda>x. if m_id x = marketId then x\<lparr>m_status := st\<rparr> else x) ms)
                  = map_option (\<lambda>m. m\<lparr>m_status := st\<rparr>) (find (\<lambda>m. m_id m = marketId) ms)"
    for st ms
    by (induction ms) auto
  show "updateMarketStatus marketId status s =
     (if status = SETTLED then (Inl (ApiError 400 Status_must_be_open_suspended_closed), s)
      else case find (\<lambda>m. m_id m = marketId) (markets s) of
             None \<Rightarrow> (Inl RecordNotFound, s)
           | Some m \<Rightarrow>
               (Inr (m\<lparr>m_status := status\<rparr>),
                s\<lparr>markets := map (\<lambda>x. if m_id x = marketId then x\<lparr>m_status := status\<rparr> else x)
                                 (markets s)\<rparr>))"
    by (cases status)
       (auto simp: updateMarketStatus_def update_market_def find_upd split: option.splits)
next
  assume "find (\<lambda>m. m_id m = marketId) (markets s) = Some market" "m_status market = SETTLED"
  then show "forceCloseMarket marketId winners s = (Inl (ApiError 400 Market_already_settled), s)"
    by (simp add: forceCloseMarket_def transaction_def forceCloseMarket_tx_def)
next
  assume "forceCloseMarket marketId winners s = (Inr res, s')"
  then have "forceCloseMarket_tx marketId winners s = Inr (res, s')"
    by (auto simp: forceCloseMarket_def transaction_def split: sum.splits)
  then obtain market s1 s2 s3 s4 where
    "find (\<lambda>m. m_id m = marketId) (markets s) = Some market"
    "m_status market \<noteq> SETTLED"
    and a: "update_market marketId CLOSED s = Inr s1"
    and b: "for_each
              (\<lambda>sel. update_runner (r_id sel)
                        (if 0 < length winners then Some (r_id sel \<in> set winners) else None))
              (filter (\<lambda>r. r_marketId r = m_id market) (runners s)) s1 = Inr s2"
    and c: "for_each (force_cancel_order marketId) (open_orders marketId s2) s2 = Inr s3"
    and d: "for_each force_settle_trade
              (unsettled_trades (map r_id (filter (\<lambda>r. r_marketId r = m_id market) (runners s))) s3)
              s3 = Inr s4"
    and e: "update_market marketId SETTLED s4 = Inr s'"
    by (rule forceCloseMarket_tx_Inr)
  have "markets s2 = markets s1"
    by (rule for_each_preserves[OF _ b]) (simp add: update_runner_frame)
  moreover have "markets s3 = markets s2"
    by (rule for_each_preserves[OF _ c]) (simp add: force_cancel_order_frame)
  moreover have "markets s4 = markets s3"
    by (rule for_each_preserves[OF _ d]) (simp add: force_settle_trade_frame)
  ultimately show
    "markets s' = map (\<lambda>x. if m_id x = marketId then x\<lparr>m_status := SETTLED\<rparr> else x) (markets s)"
    using update_market_Inr[OF a] update_market_Inr[OF e] by auto
next
  assume "settleMatch matchId winnerName s = (Inr u, s'')"
  then obtain st where
    a: "for_each (settle_market winnerName)
          (map (\<lambda>m. (m, filter (\<lambda>r. r_marketId r = m_id m) (runners s)))
               (filter (\<lambda>m. m_matchId m = matchId
                             \<and> (m_status m = MARKET_OPEN \<or> m_status m = SUSPENDED)) (markets s)))
          (s\<lparr>matches := (matches s)(matchId \<mapsto> COMPLETED)\<rparr>) = Inr s''"
    by (auto simp: settleMatch_def transaction_def settleMatch_tx_def Let_def
             split: option.splits sum.splits)
  show "markets s'' =
       map (\<lambda>x. if m_id x \<in> set (map m_id (filter (\<lambda>m. m_matchId m = matchId
                     \<and> (m_status m = MARKET_OPEN \<or> m_status m = SUSPENDED)) (markets s)))
                 then x\<lparr>m_status := SETTLED\<rparr> else x) (markets s)"
    unfolding settle_markets_markets[OF a] by (simp add: comp_def)
qed

theorem market_status_transitions_witness:
  "fst (forceCloseMarket 5 [] (scenario_db\<lparr>markets := [\<lparr>m_id = 5, m_matchId = 7, m_status = CLOSED\<rparr>]\<rparr>))
     = Inr \<lparr>cancelledOrders = 0, settledTrades = 0\<rparr>
   \<and> markets (snd (forceCloseMarket 5 []
         (scenario_db\<lparr>markets := [\<lparr>m_id = 5, m_matchId = 7, m_status = CLOSED\<rparr>]\<rparr>)))
       = [\<lparr>m_id = 5, m_matchId = 7, m_status = SETTLED\<rparr>]
   \<and> fst (settleMatch 7 None scenario_db) = Inr ()
   \<and> markets (snd (settleMatch 7 None scenario_db))
       = [\<lparr>m_id = 5, m_matchId = 7, m_status = SETTLED\<rparr>]
   \<and> forceCloseMarket 5 [] (scenario_db\<lparr>markets := [\<lparr>m_id = 5, m_matchId = 7, m_status = SETTLED\<rparr>]\<rparr>)
       = (Inl (ApiError 400 Market_already_settled),
          scenario_db\<lparr>markets := [\<lparr>m_id = 5, m_matchId = 7, m_status = SETTLED\<rparr>]\<rparr>)"
proof -
  let ?c = "scenario_db\<lparr>markets := [\<lparr>m_id = 5, m_matchId = 7, m_status = CLOSED\<rparr>]\<rparr>"
  let ?z = "scenario_db\<lparr>markets := [\<lparr>m_id = 5, m_matchId = 7, m_status = SETTLED\<rparr>]\<rparr>"
  have a: "forceCloseMarket 5 [] ?c
             = (Inr \<lparr>cancelledOrders = 0, settledTrades = 0\<rparr>, snd (forceCloseMarket 5 [] ?c))"
    by (simp add: settle_eval scenario_db_def)
  have b: "settleMatch 7 None scenario_db = (Inr (), snd (settleMatch 7 None scenario_db))"
    by (simp add: settle_eval scenario_db_def)
  note t1 = market_status_transitions
         [where marketId = 5 and s = ?c and winners = "[]",
          THEN conjunct2, THEN conjunct2, THEN conjunct1, rule_format, OF a]
  note t2 = market_status_transitions
         [where s = scenario_db and matchId = 7 and winnerName = None,
          THEN conjunct2, THEN conjunct2, THEN conjunct2, rule_format, OF b]
  note t3 = market_status_transitions
         [where marketId = 5 and s = ?z and winners = "[]"
            and market = "\<lparr>m_id = 5, m_matchId = 7, m_status = SETTLED\<rparr>",
          THEN conjunct2, THEN conjunct1, rule_format]
  have "markets (snd (forceCloseMarket 5 [] ?c)) = [\<lparr>m_id = 5, m_matchId = 7, m_status = SETTLED\<rparr>]"
    using t1 by (simp add: scenario_db_def)
  moreover have "markets (snd (settleMatch 7 None scenario_db))
                   = [\<lparr>m_id = 5, m_matchId = 7, m_status = SETTLED\<rparr>]"
    using t2 by (simp add: scenario_db_def)
  moreover have "forceCloseMarket 5 [] ?z = (Inl (ApiError 400 Market_already_settled), ?z)"
    using t3 by (simp add: scenario_db_def)
  moreover have "fst (forceCloseMarket 5 [] ?c) = Inr \<lparr>cancelledOrders = 0, settledTrades = 0\<rparr>"
    by (subst a) simp
  moreover have "fst (settleMatch 7 None scenario_db) = Inr ()"
    by (subst b) simp
  ultimately show ?thesis by simp
qed

text \<open>
  The claim as stated fails: a SETTLED market is reopened by \<open>updateMarketStatus\<close>,
  which succeeds and stores OPEN.
\<close>

theorem market_status_transitions_counterexample:
  "updateMarketStatus 5 MARKET_OPEN
     (scenario_db\<lparr>markets := [\<lparr>m_id = 5, m_matchId = 7, m_status = SETTLED\<rparr>]\<rparr>)
   = (Inr \<lparr>m_id = 5, m_matchId = 7, m_status = MARKET_OPEN\<rparr>,
      scenario_db\<lparr>markets := [\<lparr>m_id = 5, m_matchId = 7, m_status = MARKET_OPEN\<rparr>]\<rparr>)"
  by (simp add: updateMarketStatus_def update_market_def scenario_db_def)

section \<open>Settling a trade\<close>




section \<open>Exposure at match time\<close>




section \<open>Placing an order and cancelling it\<close>



section \<open>Wallet exposure against the per-market exposure rows\<close>

text \<open>
  Claim C4 asks that the wallet exposure of a user equal the sum of that user's exposure
  rows after every operation. A placement already breaks it. User 1 has no exposure and no
  exposure row, so both sides are 0; the BACK of 100 at 2 is accepted and raises the wallet
  exposure to 100 while the exposure table stays empty. Once user 2 has matched the order
  the engine has created the row, with 0, and the wallet still holds 100. Cancelling
  instead of matching lowers the wallet again and writes no row either.
\<close>

theorem placeOrder_exposure_not_mirrored:
  "wallets scenario_db 1 = Some \<lparr>balance = 1000, exposure = 0\<rparr>
   \<and> total_market_exposure 1 scenario_db = 0
   \<and> isl (fst (placeOrder 10 1 5 3 BACK 2 100 scenario_db)) = False
   \<and> wallets (snd (placeOrder 10 1 5 3 BACK 2 100 scenario_db)) 1
       = Some \<lparr>balance = 1000, exposure = 100\<rparr>
   \<and> total_market_exposure 1 (snd (placeOrder 10 1 5 3 BACK 2 100 scenario_db)) = 0
   \<and> wallets matched_db 1 = Some \<lparr>balance = 1000, exposure = 100\<rparr>
   \<and> total_market_exposure 1 matched_db = 0"
  by (simp add: matched_db_def place_eval scenario_db_def total_market_exposure_def)

section \<open>The two orders of a trade\<close>

text \<open>
  Claim C6, as the code has it. Every trade a placement creates references, as its back
  order, an order of side BACK and, as its lay order, an order of side LAY; the two are
  different orders, both on the trade's selection. Nothing compares their owners: the
  candidate queries do not filter on the user, so an incoming order is matched against a
  resting order of the same user like against any other. Identifiers are the primary key of
  the order table, which is the first hypothesis.
\<close>

theorem trade_references_back_and_lay:
  assumes "distinct (map o_id (orders s))"
    and "placeOrder now userId marketId selectionId sd price stake s = (Inr res, s')"
  shows "\<exists>new. trades s' = trades s @ new
           \<and> map t_id new = map ti_tradeId (pr_trades res)
           \<and> (\<forall>t\<in>set new.
                 case find_order (t_backOrderId t) s' of
                   None \<Rightarrow> False
                 | Some b \<Rightarrow>
                    (case find_order (t_layOrderId t) s' of
                       None \<Rightarrow> False
                     | Some l \<Rightarrow>
                         o_side b = BACK \<and> o_side l = LAY \<and> o_id b \<noteq> o_id l
                         \<and> o_selectionId b = t_selectionId t
                         \<and> o_selectionId l = t_selectionId t))"
proof -
  let ?L = "case sd of BACK \<Rightarrow> stake | LAY \<Rightarrow> (price - 1) * stake"
  let ?oid = "fresh_id (map o_id (orders s))"
  let ?K = "\<lambda>x. (o_id x, o_side x, o_selectionId x, o_userId x)"
  let ?opp = "case sd of BACK \<Rightarrow> LAY | LAY \<Rightarrow> BACK"
  from assms(2) have
    tx: "placeOrder_tx now userId marketId selectionId sd price stake s = Inr (res, s')"
    by (auto simp: placeOrder_def transaction_def split: if_splits sum.splits)
  define new_order where "new_order =
     \<lparr>o_id = ?oid, o_userId = userId, o_marketId = marketId,
       o_selectionId = selectionId, o_side = sd, o_price = price, o_stake = stake,
       o_matchedStake = 0, o_remainingStake = stake, o_status = OPEN,
       o_lockedExposure = ?L, o_createdAt = now\<rparr>"
  define s3 where "s3 =
       s\<lparr>wallets := (wallets s)(userId \<mapsto> the (wallets s userId)\<lparr>exposure :=
                        exposure (the (wallets s userId)) + ?L\<rparr>),
          orders := orders s @ [new_order],
          ledger := ledger s @
            [\<lparr>l_userId = userId, l_amount = - ?L,
              l_type = EXPOSURE_LOCK, l_balance = balance (the (wallets s userId))\<rparr>]\<rparr>"
  from tx obtain market w mr s4 where
    "find (\<lambda>x. m_id x = marketId) (markets s) = Some market"
    "m_status market = MARKET_OPEN"
    and w: "wallets s userId = Some w"
    and "\<not> balance w - exposure w < ?L"
    and m0: "(case sd of
        BACK \<Rightarrow> matchBackOrder ?oid selectionId price stake
        | LAY \<Rightarrow> matchLayOrder ?oid selectionId price stake)
       (s\<lparr>wallets := (wallets s)(userId \<mapsto> w\<lparr>exposure := exposure w + ?L\<rparr>),
          orders := orders s @ [new_order],
          ledger := ledger s @
            [\<lparr>l_userId = userId, l_amount = - ?L,
              l_type = EXPOSURE_LOCK, l_balance = balance w\<rparr>]\<rparr>)
      = Inr (mr, s4)"
    and u: "update_order ?oid
       (\<lambda>x. x\<lparr>o_matchedStake := mr_matchedStake mr, o_remainingStake := mr_remainingStake mr,
               o_status := (if mr_remainingStake mr \<le> 0 then MATCHED
                            else if 0 < mr_matchedStake mr then PARTIAL else OPEN)\<rparr>) s4
      = Inr s'"
    and "find_order ?oid s' = Some (pr_order res)"
    and pt: "pr_trades res = mr_trades mr"
    and "pr_matchedStake res = mr_matchedStake mr"
      "pr_remainingStake res = mr_remainingStake mr"
    unfolding new_order_def by (rule placeOrder_tx_Inr)
  from m0 w have m: "(case sd of
        BACK \<Rightarrow> matchBackOrder ?oid selectionId price stake
        | LAY \<Rightarrow> matchLayOrder ?oid selectionId price stake) s3 = Inr (mr, s4)"
    by (simp add: s3_def)
  define cs where "cs = map to_candidate
             (case sd of BACK \<Rightarrow> lay_candidate_rows selectionId price s3
                       | LAY \<Rightarrow> back_candidate_rows selectionId price s3)"
  from m obtain r' where
    loop: "match_loop sd ?oid selectionId cs stake [] s3 = Inr ((r', mr_trades mr), s4)"
    by (cases sd)
       (auto simp: matchBackOrder_def matchLayOrder_def cs_def split: sum.splits prod.splits)
  from match_loop_trades[OF loop] obtain new where
    n1: "trades s4 = trades s3 @ new"
    and n2: "mr_trades mr = map (\<lambda>t. \<lparr>ti_tradeId = t_id t, ti_price = t_price t,
                                        ti_stake = t_stake t\<rparr>) new"
    and n3: "\<forall>t\<in>set new. t_selectionId t = selectionId
              \<and> (case sd of BACK \<Rightarrow> t_backOrderId t | LAY \<Rightarrow> t_layOrderId t) = ?oid
              \<and> (case sd of BACK \<Rightarrow> t_layOrderId t | LAY \<Rightarrow> t_backOrderId t) \<in> c_id ` set cs"
    and n4: "map ?K (orders s4) = map ?K (orders s3)"
    by auto
  from update_order_Inr[OF u] have tr': "trades s' = trades s4"
    and "map ?K (orders s') = map ?K (orders s4)"
    by (simp_all add: map_key_update)
  with n4 have keys: "map ?K (orders s') = map ?K (orders s3)" by simp
  have o3: "orders s3 = orders s @ [new_order]" by (simp add: s3_def)
  have fresh: "?oid \<notin> set (map o_id (orders s))" by (rule fresh_id_notin)
  with assms(1) have d3: "distinct (map o_id (orders s3))"
    by (simp add: o3 new_order_def)
  have lookup: "\<exists>y. find_order (o_id x) s' = Some y \<and> o_id y = o_id x \<and> o_side y = o_side x
                     \<and> o_selectionId y = o_selectionId x"
    if "x \<in> set (orders s3)" for x
  proof -
    from find_distinct_id[OF d3 that] have "find_order (o_id x) s3 = Some x"
      by (simp add: find_order_def)
    from find_order_same_keys[OF keys this] show ?thesis by blast
  qed
  have "new_order \<in> set (orders s3)" by (simp add: o3)
  from lookup[OF this] obtain own where
    own: "find_order ?oid s' = Some own" "o_id own = ?oid" "o_side own = sd"
      "o_selectionId own = selectionId"
    by (auto simp: new_order_def)
  have other: "\<exists>y. find_order i s' = Some y \<and> o_id y = i \<and> o_side y = ?opp
                    \<and> o_selectionId y = selectionId \<and> i \<noteq> ?oid"
    if "i \<in> c_id ` set cs" for i
  proof -
    from candidate_rows[OF that[unfolded cs_def]] obtain row where
      row: "row \<in> set (orders s3)" "o_id row = i" "o_selectionId row = selectionId"
        "o_side row = ?opp"
      by blast
    have "row \<noteq> new_order" using row(4) by (cases sd) (auto simp: new_order_def)
    with row(1) have "row \<in> set (orders s)" by (simp add: o3)
    with fresh row(2) have "i \<noteq> ?oid" by (auto simp: image_iff)
    with lookup[OF row(1)] row show ?thesis by auto
  qed
  show ?thesis
  proof (intro exI[of _ new] conjI ballI)
    show "trades s' = trades s @ new" using tr' n1 by (simp add: s3_def)
    show "map t_id new = map ti_tradeId (pr_trades res)" by (simp add: pt n2 comp_def)
    fix t assume t: "t \<in> set new"
    with n3 have sel: "t_selectionId t = selectionId"
      and inc: "(case sd of BACK \<Rightarrow> t_backOrderId t | LAY \<Rightarrow> t_layOrderId t) = ?oid"
      and cand: "(case sd of BACK \<Rightarrow> t_layOrderId t | LAY \<Rightarrow> t_backOrderId t) \<in> c_id ` set cs"
      by auto
    from other[OF cand] obtain y where
      y: "find_order (case sd of BACK \<Rightarrow> t_layOrderId t | LAY \<Rightarrow> t_backOrderId t) s' = Some y"
        "o_id y = (case sd of BACK \<Rightarrow> t_layOrderId t | LAY \<Rightarrow> t_backOrderId t)"
        "o_side y = ?opp" "o_selectionId y = selectionId"
        "(case sd of BACK \<Rightarrow> t_layOrderId t | LAY \<Rightarrow> t_backOrderId t) \<noteq> ?oid"
      by blast
    show "case find_order (t_backOrderId t) s' of
            None \<Rightarrow> False
          | Some b \<Rightarrow>
             (case find_order (t_layOrderId t) s' of
                None \<Rightarrow> False
              | Some l \<Rightarrow>
                  o_side b = BACK \<and> o_side l = LAY \<and> o_id b \<noteq> o_id l
                  \<and> o_selectionId b = t_selectionId t
                  \<and> o_selectionId l = t_selectionId t)"
    proof (cases sd)
      case BACK
      with inc y own sel show ?thesis by auto
    next
      case LAY
      with inc y own sel show ?thesis by auto
    qed
  qed
qed

theorem trade_references_back_and_lay_witness:
  "trades matched_db =
     [\<lparr>t_id = 1, t_backOrderId = 1, t_layOrderId = 2, t_selectionId = 3, t_price = 2,
       t_stake = 100, t_settled = False\<rparr>]
   \<and> map_option o_side (find_order 1 matched_db) = Some BACK
   \<and> map_option o_side (find_order 2 matched_db) = Some LAY"
proof -
  let ?s = "snd (placeOrder 10 1 5 3 BACK 2 100 scenario_db)"
  have a: "distinct (map o_id (orders ?s))"
    by (simp add: place_eval scenario_db_def)
  have b: "placeOrder 11 2 5 3 LAY 2 100 ?s
             = (Inr (projr (fst (placeOrder 11 2 5 3 LAY 2 100 ?s))), matched_db)"
    by (simp add: matched_db_def place_eval scenario_db_def)
  have c: "trades ?s = []" by (simp add: place_eval scenario_db_def)
  from trade_references_back_and_lay[OF a b] show ?thesis
    by (auto simp: c matched_db_eq find_order_def)
qed

text \<open>
  The claim as stated fails. User 1 lays runner 3 at 2 for 100 and then backs it at 2 for
  100: the placement succeeds with one trade, whose back order (2) and lay order (1) both
  belong to user 1.
\<close>

theorem trade_references_back_and_lay_counterexample:
  "trades (snd (placeOrder 11 1 5 3 BACK 2 100 (snd (placeOrder 10 1 5 3 LAY 2 100 scenario_db))))
     = [\<lparr>t_id = 1, t_backOrderId = 2, t_layOrderId = 1, t_selectionId = 3, t_price = 2,
         t_stake = 100, t_settled = False\<rparr>]
   \<and> map_option o_userId
        (find_order 2 (snd (placeOrder 11 1 5 3 BACK 2 100
                              (snd (placeOrder 10 1 5 3 LAY 2 100 scenario_db))))) = Some 1
   \<and> map_option o_userId
        (find_order 1 (snd (placeOrder 11 1 5 3 BACK 2 100
                              (snd (placeOrder 10 1 5 3 LAY 2 100 scenario_db))))) = Some 1"
  by (simp add: place_eval scenario_db_def)

section \<open>Refund-all settlement\<close>




section \<open>Price-time priority\<close>



end
